theory Spec2Isabelle
  imports Complex_Main
begin

section \<open>Data model (listings/models.py)\<close>

text \<open>
  Primary keys are UUIDs and users are rows of Django's \<open>User\<close> table; both are opaque
  identities that the code only compares for equality. A \<open>datetime.date\<close> is modelled by
  its proleptic Gregorian ordinal (\<open>date.toordinal()\<close>): comparison of dates is comparison
  of ordinals and \<open>(d2 - d1).days\<close> is their difference.
\<close>

type_synonym uuid = nat
type_synonym User = nat
type_synonym date = int

text \<open>
  \<open>date(year, month, day).toordinal()\<close> as the standard library computes it
  (\<open>_ymd2ord\<close>), for a month from 1 to 12; it is used to write calendar dates in
  examples.
\<close>

definition is_leap :: "int \<Rightarrow> bool" where
  "is_leap year = (year mod 4 = 0 \<and> (year mod 100 \<noteq> 0 \<or> year mod 400 = 0))"

definition days_before_year :: "int \<Rightarrow> int" where
  "days_before_year year = (let y = year - 1 in y * 365 + y div 4 - y div 100 + y div 400)"

definition days_before_month :: "int \<Rightarrow> nat \<Rightarrow> int" where
  "days_before_month year month =
     [0, 31, 59, 90, 120, 151, 181, 212, 243, 273, 304, 334] ! (month - 1) +
     (if month > 2 \<and> is_leap year then 1 else 0)"

definition ymd2ord :: "int \<Rightarrow> nat \<Rightarrow> int \<Rightarrow> date" where
  "ymd2ord year month day = days_before_year year + days_before_month year month + day"

text \<open>\<open>date.min.toordinal()\<close> is 1 and \<open>date.max.toordinal()\<close> is 3652059.\<close>

definition valid_date :: "date \<Rightarrow> bool" where
  "valid_date d = (1 \<le> d \<and> d \<le> 3652059)"

subsection \<open>Decimal\<close>

text \<open>
  A \<open>decimal.Decimal\<close> is a signed integer coefficient with a power-of-ten exponent:
  \<open>Decimal('100.00')\<close> has coefficient 10000 and exponent -2. Its value is the
  rational number \<open>coefficient * 10 ^ exponent\<close>.
\<close>

record decimal =
  coefficient :: int
  exponent :: int

definition dec_value :: "decimal \<Rightarrow> rat" where
  "dec_value d =
     (if 0 \<le> exponent d then of_int (coefficient d) * 10 ^ nat (exponent d)
      else of_int (coefficient d) / 10 ^ nat (- exponent d))"

text \<open>The number of decimal digits of a coefficient: \<open>len(str(n))\<close>.\<close>

fun ndigits :: "nat \<Rightarrow> nat" where
  "ndigits n = (if n < 10 then 1 else Suc (ndigits (n div 10)))"

text \<open>The precision of Python's default arithmetic context.\<close>

definition prec :: nat where
  "prec = 28"

text \<open>
  \<open>Decimal._fix\<close> under the default context (precision 28, \<open>ROUND_HALF_EVEN\<close>): a
  coefficient of more than 28 digits is rounded to 28 digits, half to even, and the
  exponent grows by the number of digits dropped. The exponent limits of the context
  (\<open>Emax = 999999\<close>) are out of reach of the prices here and are not modelled.
\<close>

definition decimal_fix :: "decimal \<Rightarrow> decimal" where
  "decimal_fix d =
     (let c = nat \<bar>coefficient d\<bar>; n = ndigits c in
      if n \<le> prec then d
      else
        let k = n - prec;
            q = c div 10 ^ k;
            r = c mod 10 ^ k;
            half = 5 * 10 ^ (k - 1);
            q' = (if r > half \<or> (r = half \<and> odd q) then q + 1 else q)
        in if ndigits q' > prec
           then \<lparr>coefficient = sgn (coefficient d) * int (q' div 10),
                  exponent = exponent d + int k + 1\<rparr>
           else \<lparr>coefficient = sgn (coefficient d) * int q',
                  exponent = exponent d + int k\<rparr>)"

text \<open>
  \<open>Decimal.__mul__\<close> with an \<open>int\<close> operand, which is converted to a Decimal of
  exponent 0: the coefficients are multiplied, the exponents added, and the result is
  fixed to the context.
\<close>

definition decimal_mul_int :: "decimal \<Rightarrow> int \<Rightarrow> decimal" where
  "decimal_mul_int d n = decimal_fix \<lparr>coefficient = coefficient d * n, exponent = exponent d + 0\<rparr>"

text \<open>
  \<open>Decimal._rescale\<close> to the exponent \<open>e\<close>, rounding half to even: zeros are appended
  when the exponent goes down, digits are dropped and the rest rounded when it goes up.
\<close>

definition rescale :: "decimal \<Rightarrow> int \<Rightarrow> decimal" where
  "rescale d e =
     (if e \<le> exponent d
      then \<lparr>coefficient = coefficient d * 10 ^ nat (exponent d - e), exponent = e\<rparr>
      else
        let k = nat (e - exponent d);
            c = nat \<bar>coefficient d\<bar>;
            q = c div 10 ^ k;
            r = c mod 10 ^ k;
            half = 5 * 10 ^ (k - 1);
            q' = (if r > half \<or> (r = half \<and> odd q) then q + 1 else q)
        in \<lparr>coefficient = sgn (coefficient d) * int q', exponent = e\<rparr>)"

text \<open>
  What Django does with the value of a \<open>DecimalField\<close> when a row is written
  (\<open>get_db_prep_save\<close>, \<open>django.db.backends.utils.format_number\<close>): the value is
  quantized to \<open>decimal_places\<close> places in a context of precision \<open>max_digits\<close>, and
  \<open>Decimal.quantize\<close> raises \<open>decimal.InvalidOperation\<close> (\<open>None\<close> here) when the
  result needs more than \<open>max_digits\<close> digits. The quantized value is what the row
  holds.
\<close>

definition format_number :: "decimal \<Rightarrow> nat \<Rightarrow> nat \<Rightarrow> decimal option" where
  "format_number v max_digits decimal_places =
     (if coefficient v = 0 then Some \<lparr>coefficient = 0, exponent = - int decimal_places\<rparr>
      else if int (ndigits (nat \<bar>coefficient v\<bar>)) + exponent v + int decimal_places
                > int max_digits
      then None
      else
        let ans = rescale v (- int decimal_places) in
        if ndigits (nat \<bar>coefficient ans\<bar>) > max_digits then None else Some ans)"

text \<open>
  \<open>DecimalField(max_digits=10, decimal_places=2)\<close>: what a stored price looks like.
\<close>

definition valid_price :: "decimal \<Rightarrow> bool" where
  "valid_price p = (exponent p = - 2 \<and> \<bar>coefficient p\<bar> < 10 ^ 10)"

subsection \<open>Models\<close>

text \<open>
  Only the columns that the validation and pricing code reads or writes are kept: titles,
  descriptions, timestamps and the free-text \<open>special_requests\<close> play no part in it.
\<close>

record Listing =
  listing_id :: uuid
  price_per_night :: decimal
  max_guests :: nat
  host :: User
  is_available :: bool

text \<open>\<open>Booking.STATUS_CHOICES\<close>.\<close>

datatype status = Pending | Confirmed | Cancelled | Completed

text \<open>
  A row of the booking table. The foreign key \<open>listing\<close> is stored as the primary key of
  the listing it points to.
\<close>

record Booking =
  booking_id :: uuid
  listing :: uuid
  guest :: User
  check_in_date :: date
  check_out_date :: date
  number_of_guests :: int
  total_price :: decimal
  status :: status

record Review =
  review_id :: uuid
  review_listing :: uuid
  reviewer :: User
  review_booking :: "uuid option"
  rating :: int
  comment :: string

text \<open>The database: one table per model.\<close>

record store =
  listings :: "Listing list"
  bookings :: "Booking list"
  reviews :: "Review list"

text \<open>
  \<open>Listing.objects.get(listing_id=...)\<close> and \<open>Booking.objects.get(booking_id=...)\<close>;
  \<open>None\<close> stands for \<open>DoesNotExist\<close>.
\<close>

definition Listing_objects_get :: "store \<Rightarrow> uuid \<Rightarrow> Listing option" where
  "Listing_objects_get st lid = find (\<lambda>l. listing_id l = lid) (listings st)"

definition Booking_objects_get :: "store \<Rightarrow> uuid \<Rightarrow> Booking option" where
  "Booking_objects_get st bid = find (\<lambda>b. booking_id b = bid) (bookings st)"

section \<open>Errors and the serializer context\<close>

text \<open>
  Every \<open>serializers.ValidationError\<close> of listings/serializers.py, named by its kind:
  \<^item> \<open>InvalidDateRange\<close>: "Check-out date must be after check-in date."
  \<^item> \<open>PastCheckInDate\<close>: "Check-in date cannot be in the past."
  \<^item> \<open>ListingUnavailable\<close>: "This listing is not available for booking."
  \<^item> \<open>GuestCapacityExceeded\<close>: "Number of guests (..) exceeds maximum allowed (..)."
  \<^item> \<open>DateRangeConflict\<close>: "These dates are not available. Please choose different dates."
  \<^item> \<open>ListingNotFound\<close>: "Invalid listing ID."
  \<^item> \<open>InvalidRating\<close>: "Rating must be between 1 and 5."
  \<^item> \<open>NotBookingOwner\<close>: "You can only review bookings you made."
  \<^item> \<open>BookingNotCompleted\<close>: "You can only review completed bookings."
  \<^item> \<open>BookingNotFound\<close>: "Invalid booking ID."

  The serializer's fields run before \<open>validate\<close> and report their errors together, one
  entry per field: \<open>FieldErrors\<close> lists the field names with the error codes
  \<open>required\<close>, \<open>blank\<close>, \<open>min_value\<close> and \<open>max_value\<close>.

  \<open>KeyError\<close> is Python's, raised by \<open>validated_data[key]\<close> on a missing key.
  Writing a row can fail with \<open>decimal.InvalidOperation\<close> (a decimal with too many
  digits for its column), with \<open>DataError\<close> (an integer beyond the range of its column;
  SQLite reports it as \<open>OverflowError\<close>) and with \<open>IntegrityError\<close> (a constraint of
  the table).
\<close>

datatype field_error = Required | Blank | MinValue | MaxValue

datatype error =
    InvalidDateRange
  | PastCheckInDate
  | ListingUnavailable
  | GuestCapacityExceeded
  | DateRangeConflict
  | ListingNotFound
  | InvalidRating
  | NotBookingOwner
  | BookingNotCompleted
  | BookingNotFound
  | FieldErrors "(string \<times> field_error) list"
  | KeyError string
  | InvalidOperation
  | DataError
  | IntegrityError

text \<open>
  The database backend is configured outside these files. The serializer takes from it
  the largest value of a \<open>PositiveIntegerField\<close> column
  (\<open>connection.ops.integer_field_range\<close>; 2147483647 with PostgreSQL,
  9223372036854775807 with SQLite), which Django adds to the model field as a
  \<open>MaxValueValidator\<close>.
\<close>

record backend =
  positive_integer_max :: int

text \<open>
  \<open>self.context.get('request')\<close> is a request or \<open>None\<close>; the request has an attribute
  \<open>user\<close> or lacks it.
\<close>

record request =
  user :: "User option"

type_synonym serializer_context = "request option"

text \<open>
  \<^verbatim>\<open>
  request = self.context.get('request')
  if request and hasattr(request, 'user'):  ... request.user ...
  \<close>
  The user the guarded block sees, \<open>None\<close> when the guard fails.
\<close>

definition request_user :: "serializer_context \<Rightarrow> User option" where
  "request_user ctx = (case ctx of None \<Rightarrow> None | Some r \<Rightarrow> user r)"

section \<open>BookingSerializer\<close>

text \<open>
  The \<open>data\<close> dictionary of the serializer: a key that is absent is \<open>None\<close>. The first
  four keys are the writable fields; \<open>listing\<close> is added by \<open>validate\<close>, \<open>guest\<close>
  and \<open>total_price\<close> by \<open>create\<close>.
\<close>

record booking_data =
  d_listing_id :: "uuid option"
  d_check_in_date :: "date option"
  d_check_out_date :: "date option"
  d_number_of_guests :: "int option"
  d_listing :: "Listing option"
  d_guest :: "User option"
  d_total_price :: "decimal option"
  d_status :: "status option"

subsection \<open>The fields\<close>

text \<open>
  The payload of a request holds values that its fields have parsed: a UUID, dates, an
  integer. The four writable fields are required unless the serializer is partial
  (\<open>partial=True\<close>, a PATCH).
\<close>

definition required_error :: "bool \<Rightarrow> string \<Rightarrow> 'a option \<Rightarrow> (string \<times> field_error) list" where
  "required_error partial name v = (if v = None \<and> \<not> partial then [(name, Required)] else [])"

text \<open>
  \<open>Booking.number_of_guests\<close> is a \<open>PositiveIntegerField\<close> with
  \<open>validators=[MinValueValidator(1)]\<close>: the serializer builds an integer field with
  \<open>min_value=1\<close> and the backend's maximum as \<open>max_value\<close>.
\<close>

definition number_of_guests_errors :: "backend \<Rightarrow> int option \<Rightarrow> (string \<times> field_error) list" where
  "number_of_guests_errors be v =
     (case v of
        None \<Rightarrow> []
      | Some n \<Rightarrow>
          if n > positive_integer_max be then [(''number_of_guests'', MaxValue)]
          else if n < 1 then [(''number_of_guests'', MinValue)]
          else [])"

text \<open>The errors of all fields, in the order of \<open>Meta.fields\<close>.\<close>

definition booking_field_errors :: "backend \<Rightarrow> bool \<Rightarrow> booking_data \<Rightarrow> (string \<times> field_error) list" where
  "booking_field_errors be partial payload =
     required_error partial ''listing_id'' (d_listing_id payload) @
     required_error partial ''check_in_date'' (d_check_in_date payload) @
     required_error partial ''check_out_date'' (d_check_out_date payload) @
     required_error partial ''number_of_guests'' (d_number_of_guests payload) @
     number_of_guests_errors be (d_number_of_guests payload)"

text \<open>
  \<open>to_internal_value\<close>: the request is refused with the errors of its fields when there
  are any. \<open>Meta.read_only_fields\<close> holds \<open>guest\<close>, \<open>total_price\<close> and \<open>status\<close>,
  and \<open>listing\<close> is declared \<open>read_only=True\<close>: these keys of the payload are dropped.
\<close>

definition to_internal_value :: "backend \<Rightarrow> bool \<Rightarrow> booking_data \<Rightarrow> error + booking_data" where
  "to_internal_value be partial payload =
     (case booking_field_errors be partial payload of
        [] \<Rightarrow> Inr (payload\<lparr>d_listing := None, d_guest := None, d_total_price := None,
                         d_status := None\<rparr>)
      | es \<Rightarrow> Inl (FieldErrors es))"

section \<open>The overlap query of BookingSerializer.validate\<close>

text \<open>
  \<^verbatim>\<open>
  overlapping_bookings = Booking.objects.filter(
      listing=listing,
      status__in=['confirmed', 'pending'],
      check_in_date__lt=check_out_date,
      check_out_date__gt=check_in_date)
  if self.instance:
      overlapping_bookings = overlapping_bookings.exclude(booking_id=self.instance.booking_id)
  \<close>
  The first argument is the booking table, \<open>inst\<close> is \<open>self.instance\<close>.
\<close>

definition overlapping_bookings ::
  "Booking list \<Rightarrow> uuid \<Rightarrow> date \<Rightarrow> date \<Rightarrow> Booking option \<Rightarrow> Booking list" where
  "overlapping_bookings bs lid check_in check_out inst =
     (let q = filter (\<lambda>b. listing b = lid \<and> status b \<in> set [Confirmed, Pending] \<and>
                           check_in_date b < check_out \<and> check_out_date b > check_in) bs
      in case inst of
           None \<Rightarrow> q
         | Some i \<Rightarrow> filter (\<lambda>b. booking_id b \<noteq> booking_id i) q)"

text \<open>\<open>overlapping_bookings.exists()\<close>.\<close>

definition exists_overlapping ::
  "Booking list \<Rightarrow> uuid \<Rightarrow> date \<Rightarrow> date \<Rightarrow> Booking option \<Rightarrow> bool" where
  "exists_overlapping bs lid check_in check_out inst =
     (overlapping_bookings bs lid check_in check_out inst \<noteq> [])"

subsection \<open>validate\<close>

text \<open>
  The date checks: they run when both dates are in \<open>data\<close> (a date is never falsy).
  \<^verbatim>\<open>
  if check_in_date and check_out_date:
      if check_out_date <= check_in_date: raise ValidationError(...)
      if check_in_date < date.today(): raise ValidationError(...)
  \<close>
\<close>

definition validate_dates :: "date \<Rightarrow> date option \<Rightarrow> date option \<Rightarrow> error + unit" where
  "validate_dates today check_in check_out =
     (case (check_in, check_out) of
        (Some ci, Some co) \<Rightarrow>
          if co \<le> ci then Inl InvalidDateRange
          else if ci < today then Inl PastCheckInDate
          else Inr ()
      | _ \<Rightarrow> Inr ())"

text \<open>
  \<open>number_of_guests and number_of_guests > listing.max_guests\<close>: an absent value
  (\<open>None\<close>) and the integer 0 are both falsy in Python.
\<close>

definition exceeds_capacity :: "int option \<Rightarrow> Listing \<Rightarrow> bool" where
  "exceeds_capacity guests l =
     (case guests of
        None \<Rightarrow> False
      | Some n \<Rightarrow> n \<noteq> 0 \<and> n > int (max_guests l))"

text \<open>
  \<open>BookingSerializer.validate(self, data)\<close>. \<open>today\<close> is \<open>date.today()\<close>, \<open>st\<close> the
  database and \<open>inst\<close> is \<open>self.instance\<close>: \<open>None\<close> when a booking is created, the
  stored booking when one is updated. On success the returned \<open>data\<close> carries the
  listing that was looked up.
\<close>

definition BookingSerializer_validate ::
  "date \<Rightarrow> store \<Rightarrow> Booking option \<Rightarrow> booking_data \<Rightarrow> error + booking_data" where
  "BookingSerializer_validate today st inst data =
     (let check_in = d_check_in_date data;
          check_out = d_check_out_date data;
          guests = d_number_of_guests data
      in case validate_dates today check_in check_out of
           Inl e \<Rightarrow> Inl e
         | Inr _ \<Rightarrow>
             (case d_listing_id data of
                None \<Rightarrow> Inr data
              | Some lid \<Rightarrow>
                  (case Listing_objects_get st lid of
                     None \<Rightarrow> Inl ListingNotFound
                   | Some l \<Rightarrow>
                       let data' = data\<lparr>d_listing := Some l\<rparr> in
                       if \<not> is_available l then Inl ListingUnavailable
                       else if exceeds_capacity guests l then Inl GuestCapacityExceeded
                       else
                         (case (check_in, check_out) of
                            (Some ci, Some co) \<Rightarrow>
                              if exists_overlapping (bookings st) (listing_id l) ci co inst
                              then Inl DateRangeConflict
                              else Inr data'
                          | _ \<Rightarrow> Inr data'))))"

subsection \<open>create and update\<close>

text \<open>
  Writing a booking row. Preparing the values comes first: \<open>total_price\<close> is a
  \<open>DecimalField(max_digits=10, decimal_places=2)\<close> and goes through \<open>format_number\<close>.
  The backend then refuses a \<open>number_of_guests\<close> beyond the range of its column
  (\<open>DataError\<close>), and the table refuses the row (\<open>IntegrityError\<close>) when
  \<open>number_of_guests\<close> is negative (the check of a \<open>PositiveIntegerField\<close>), when the
  constraint \<open>check_out_after_check_in\<close> of \<open>Booking.Meta\<close> fails, or when the listing
  the row points to is not stored.
\<close>

definition booking_row :: "backend \<Rightarrow> store \<Rightarrow> Booking \<Rightarrow> error + Booking" where
  "booking_row be st b =
     (case format_number (total_price b) 10 2 of
        None \<Rightarrow> Inl InvalidOperation
      | Some p \<Rightarrow>
          if number_of_guests b > positive_integer_max be then Inl DataError
          else if number_of_guests b < 0 then Inl IntegrityError
          else if \<not> check_out_date b > check_in_date b then Inl IntegrityError
          else if listing b \<notin> set (map listing_id (listings st)) then Inl IntegrityError
          else Inr (b\<lparr>total_price := p\<rparr>))"

text \<open>
  \<open>Booking.objects.create(**validated_data)\<close>, which \<open>super().create\<close> reaches. The
  primary key defaults to a fresh \<open>uuid.uuid4()\<close>, passed here as \<open>new_id\<close>; \<open>status\<close>
  defaults to \<open>'pending'\<close> when the key is absent. The row is refused as above, and
  with \<open>IntegrityError\<close> when a column without \<open>null=True\<close> has no value or when the
  primary key is taken. The result is the new instance, which keeps the values it was
  built from, and the database with the new row.
\<close>

definition Booking_objects_create ::
  "backend \<Rightarrow> store \<Rightarrow> uuid \<Rightarrow> booking_data \<Rightarrow> error + (Booking \<times> store)" where
  "Booking_objects_create be st new_id d =
     (if (case d_total_price d of None \<Rightarrow> False | Some p \<Rightarrow> format_number p 10 2 = None)
      then Inl InvalidOperation
      else if (case d_number_of_guests d of
                 None \<Rightarrow> False
               | Some n \<Rightarrow> n > positive_integer_max be)
      then Inl DataError
      else
        case (d_listing d, d_guest d, d_check_in_date d, d_check_out_date d,
              d_number_of_guests d, d_total_price d) of
          (Some l, Some g, Some ci, Some co, Some n, Some p) \<Rightarrow>
            let b = \<lparr>booking_id = new_id, listing = listing_id l, guest = g,
                     check_in_date = ci, check_out_date = co, number_of_guests = n,
                     total_price = p,
                     status = (case d_status d of None \<Rightarrow> Pending | Some s \<Rightarrow> s)\<rparr>
            in if new_id \<in> set (map booking_id (bookings st)) then Inl IntegrityError
               else
                 (case booking_row be st b of
                    Inl e \<Rightarrow> Inl e
                  | Inr row \<Rightarrow> Inr (b, st\<lparr>bookings := row # bookings st\<rparr>))
        | _ \<Rightarrow> Inl IntegrityError)"

text \<open>
  \<open>BookingSerializer.create(self, validated_data)\<close>:
  \<^verbatim>\<open>
  request = self.context.get('request')
  if request and hasattr(request, 'user'):
      validated_data['guest'] = request.user
  listing = validated_data['listing']
  check_in_date = validated_data['check_in_date']
  check_out_date = validated_data['check_out_date']
  nights = (check_out_date - check_in_date).days
  validated_data['total_price'] = listing.price_per_night * nights
  return super().create(validated_data)
  \<close>
\<close>

definition BookingSerializer_create ::
  "backend \<Rightarrow> serializer_context \<Rightarrow> store \<Rightarrow> uuid \<Rightarrow> booking_data \<Rightarrow>
     error + (Booking \<times> store)" where
  "BookingSerializer_create be ctx st new_id validated_data =
     (let vd = (case request_user ctx of
                  Some u \<Rightarrow> validated_data\<lparr>d_guest := Some u\<rparr>
                | None \<Rightarrow> validated_data)
      in case d_listing vd of
           None \<Rightarrow> Inl (KeyError ''listing'')
         | Some l \<Rightarrow>
             (case d_check_in_date vd of
                None \<Rightarrow> Inl (KeyError ''check_in_date'')
              | Some ci \<Rightarrow>
                  (case d_check_out_date vd of
                     None \<Rightarrow> Inl (KeyError ''check_out_date'')
                   | Some co \<Rightarrow>
                       let nights = co - ci in
                       Booking_objects_create be st new_id
                         (vd\<lparr>d_total_price :=
                               Some (decimal_mul_int (price_per_night l) nights)\<rparr>))))"

text \<open>
  \<open>BookingSerializer\<close> does not override \<open>update\<close>: the inherited one assigns every key
  of \<open>validated_data\<close> to the instance and saves it. It does not recompute
  \<open>total_price\<close>. \<open>save()\<close> writes the row as above, over the stored row with the
  instance's primary key, or as a new row when there is none.
\<close>

definition BookingSerializer_update ::
  "backend \<Rightarrow> store \<Rightarrow> Booking \<Rightarrow> booking_data \<Rightarrow> error + (Booking \<times> store)" where
  "BookingSerializer_update be st inst d =
     (let b = inst\<lparr>
                listing := (case d_listing d of
                              Some l \<Rightarrow> listing_id l
                            | None \<Rightarrow> (case d_listing_id d of Some lid \<Rightarrow> lid | None \<Rightarrow> listing inst)),
                guest := (case d_guest d of Some g \<Rightarrow> g | None \<Rightarrow> guest inst),
                check_in_date := (case d_check_in_date d of Some ci \<Rightarrow> ci | None \<Rightarrow> check_in_date inst),
                check_out_date := (case d_check_out_date d of Some co \<Rightarrow> co | None \<Rightarrow> check_out_date inst),
                number_of_guests := (case d_number_of_guests d of Some n \<Rightarrow> n | None \<Rightarrow> number_of_guests inst),
                total_price := (case d_total_price d of Some p \<Rightarrow> p | None \<Rightarrow> total_price inst),
                status := (case d_status d of Some s \<Rightarrow> s | None \<Rightarrow> status inst)\<rparr>
      in case booking_row be st b of
           Inl e \<Rightarrow> Inl e
         | Inr row \<Rightarrow>
             Inr (b, st\<lparr>bookings :=
                          (if booking_id inst \<in> set (map booking_id (bookings st))
                           then map (\<lambda>x. if booking_id x = booking_id inst then row else x)
                                  (bookings st)
                           else row # bookings st)\<rparr>))"

subsection \<open>The two requests\<close>

text \<open>
  \<open>serializer.is_valid()\<close> runs the fields and then \<open>validate\<close>
  (\<open>Serializer.run_validation\<close>); \<open>inst\<close> is \<open>self.instance\<close> and \<open>partial\<close> the
  serializer's \<open>partial\<close> flag.
\<close>

definition booking_run_validation ::
  "backend \<Rightarrow> date \<Rightarrow> store \<Rightarrow> Booking option \<Rightarrow> bool \<Rightarrow> booking_data \<Rightarrow>
     error + booking_data" where
  "booking_run_validation be today st inst partial payload =
     (case to_internal_value be partial payload of
        Inl e \<Rightarrow> Inl e
      | Inr data \<Rightarrow> BookingSerializer_validate today st inst data)"

text \<open>
  What a caller does with the serializer: \<open>serializer.is_valid()\<close>, then
  \<open>serializer.save()\<close>, which runs \<open>create\<close> when there is no instance and \<open>update\<close>
  when there is one. A creation request is never partial; an update is partial (PATCH,
  the payload holds only the keys the client sent) or not (PUT).
\<close>

definition create_booking ::
  "backend \<Rightarrow> date \<Rightarrow> serializer_context \<Rightarrow> store \<Rightarrow> uuid \<Rightarrow> booking_data \<Rightarrow>
     error + (Booking \<times> store)" where
  "create_booking be today ctx st new_id payload =
     (case booking_run_validation be today st None False payload of
        Inl e \<Rightarrow> Inl e
      | Inr validated_data \<Rightarrow> BookingSerializer_create be ctx st new_id validated_data)"

definition update_booking ::
  "backend \<Rightarrow> date \<Rightarrow> store \<Rightarrow> Booking \<Rightarrow> bool \<Rightarrow> booking_data \<Rightarrow>
     error + (Booking \<times> store)" where
  "update_booking be today st inst partial payload =
     (case booking_run_validation be today st (Some inst) partial payload of
        Inl e \<Rightarrow> Inl e
      | Inr validated_data \<Rightarrow> BookingSerializer_update be st inst validated_data)"

section \<open>ReviewSerializer\<close>

text \<open>
  The \<open>data\<close> dictionary of the review serializers. \<open>listing\<close> and \<open>booking\<close> are added
  by \<open>validate\<close>, \<open>reviewer\<close> by \<open>create\<close>.
\<close>

record review_data =
  rd_listing_id :: "uuid option"
  rd_booking_id :: "uuid option"
  rd_rating :: "int option"
  rd_comment :: "string option"
  rd_listing :: "Listing option"
  rd_booking :: "Booking option"
  rd_reviewer :: "User option"

text \<open>\<open>rating and (rating < 1 or rating > 5)\<close>: \<open>None\<close> and 0 are falsy.\<close>

definition rating_out_of_range :: "int option \<Rightarrow> bool" where
  "rating_out_of_range r0 =
     (case r0 of
        None \<Rightarrow> False
      | Some r \<Rightarrow> r \<noteq> 0 \<and> (r < 1 \<or> r > 5))"

text \<open>
  \<open>ReviewSerializer.validate(self, data)\<close>, which \<open>ReviewCreateSerializer.validate\<close>
  calls unchanged. The booking is looked up before the context is examined, and the two
  booking checks sit under the guard \<open>request and hasattr(request, 'user')\<close>.
\<close>

definition ReviewSerializer_validate ::
  "serializer_context \<Rightarrow> store \<Rightarrow> review_data \<Rightarrow> error + review_data" where
  "ReviewSerializer_validate ctx st data =
     (if rating_out_of_range (rd_rating data) then Inl InvalidRating
      else
        case (case rd_listing_id data of
                None \<Rightarrow> Inr data
              | Some lid \<Rightarrow>
                  (case Listing_objects_get st lid of
                     None \<Rightarrow> Inl ListingNotFound
                   | Some l \<Rightarrow> Inr (data\<lparr>rd_listing := Some l\<rparr>))) of
          Inl e \<Rightarrow> Inl e
        | Inr data1 \<Rightarrow>
            (case rd_booking_id data1 of
               None \<Rightarrow> Inr data1
             | Some bid \<Rightarrow>
                 (case Booking_objects_get st bid of
                    None \<Rightarrow> Inl BookingNotFound
                  | Some booking \<Rightarrow>
                      (case request_user ctx of
                         None \<Rightarrow> Inr (data1\<lparr>rd_booking := Some booking\<rparr>)
                       | Some u \<Rightarrow>
                           if guest booking \<noteq> u then Inl NotBookingOwner
                           else if status booking \<noteq> Completed then Inl BookingNotCompleted
                           else Inr (data1\<lparr>rd_booking := Some booking\<rparr>)))))"

text \<open>
  \<open>Review.objects.create(**validated_data)\<close>. The database refuses the row when
  \<open>listing\<close>, \<open>reviewer\<close> or \<open>rating\<close> has no value, when the primary key is taken, or
  when a review of the same listing by the same reviewer is stored already
  (\<open>unique_together = ['listing', 'reviewer']\<close> of \<open>Review.Meta\<close>). A text column
  without a value is stored as the empty string.
\<close>

definition Review_objects_create ::
  "store \<Rightarrow> uuid \<Rightarrow> review_data \<Rightarrow> error + (Review \<times> store)" where
  "Review_objects_create st new_id d =
     (case (rd_listing d, rd_reviewer d, rd_rating d) of
        (Some l, Some u, Some r) \<Rightarrow>
          let rv = \<lparr>review_id = new_id, review_listing = listing_id l, reviewer = u,
                    review_booking = (case rd_booking d of
                                        Some b \<Rightarrow> Some (booking_id b)
                                      | None \<Rightarrow> rd_booking_id d),
                    rating = r,
                    comment = (case rd_comment d of None \<Rightarrow> [] | Some c \<Rightarrow> c)\<rparr>
          in if new_id \<in> set (map review_id (reviews st)) then Inl IntegrityError
             else if (listing_id l, u) \<in> set (map (\<lambda>x. (review_listing x, reviewer x)) (reviews st))
             then Inl IntegrityError
             else Inr (rv, st\<lparr>reviews := rv # reviews st\<rparr>)
      | _ \<Rightarrow> Inl IntegrityError)"

text \<open>
  \<open>ReviewSerializer.create(self, validated_data)\<close>: the reviewer is the request's user.
\<close>

definition ReviewSerializer_create ::
  "serializer_context \<Rightarrow> store \<Rightarrow> uuid \<Rightarrow> review_data \<Rightarrow> error + (Review \<times> store)" where
  "ReviewSerializer_create ctx st new_id validated_data =
     (let vd = (case request_user ctx of
                  Some u \<Rightarrow> validated_data\<lparr>rd_reviewer := Some u\<rparr>
                | None \<Rightarrow> validated_data)
      in Review_objects_create st new_id vd)"

text \<open>
  The fields of \<open>ReviewSerializer\<close> and \<open>ReviewCreateSerializer\<close>, on a creation
  request. \<open>listing_id\<close> is required and \<open>booking_id\<close> is not
  (\<open>required=False\<close>). \<open>Review.rating\<close> has
  \<open>validators=[MinValueValidator(1), MaxValueValidator(5)]\<close>, so the serializer builds
  an integer field with \<open>min_value=1\<close> and \<open>max_value=5\<close>. \<open>Review.comment\<close> is a
  \<open>TextField\<close> without \<open>blank=True\<close>: the field is required and refuses the empty
  text. The payload holds the comment as the field has parsed it, with surrounding
  whitespace stripped.
\<close>

definition rating_errors :: "int option \<Rightarrow> (string \<times> field_error) list" where
  "rating_errors v =
     (case v of
        None \<Rightarrow> [(''rating'', Required)]
      | Some r \<Rightarrow>
          if r > 5 then [(''rating'', MaxValue)]
          else if r < 1 then [(''rating'', MinValue)]
          else [])"

definition comment_errors :: "string option \<Rightarrow> (string \<times> field_error) list" where
  "comment_errors v =
     (case v of
        None \<Rightarrow> [(''comment'', Required)]
      | Some c \<Rightarrow> if c = [] then [(''comment'', Blank)] else [])"

definition review_field_errors :: "review_data \<Rightarrow> (string \<times> field_error) list" where
  "review_field_errors payload =
     required_error False ''listing_id'' (rd_listing_id payload) @
     rating_errors (rd_rating payload) @
     comment_errors (rd_comment payload)"

text \<open>
  \<open>to_internal_value\<close> of the review serializers. \<open>listing\<close> and \<open>reviewer\<close> are
  read-only fields and \<open>booking\<close> is no field: none of them is taken from the payload.
\<close>

definition review_to_internal_value :: "review_data \<Rightarrow> error + review_data" where
  "review_to_internal_value payload =
     (case review_field_errors payload of
        [] \<Rightarrow> Inr (payload\<lparr>rd_listing := None, rd_booking := None, rd_reviewer := None\<rparr>)
      | es \<Rightarrow> Inl (FieldErrors es))"

text \<open>\<open>serializer.is_valid()\<close>: the fields, then \<open>validate\<close>.\<close>

definition review_run_validation ::
  "serializer_context \<Rightarrow> store \<Rightarrow> review_data \<Rightarrow> error + review_data" where
  "review_run_validation ctx st payload =
     (case review_to_internal_value payload of
        Inl e \<Rightarrow> Inl e
      | Inr data \<Rightarrow> ReviewSerializer_validate ctx st data)"

text \<open>\<open>serializer.is_valid()\<close> followed by \<open>serializer.save()\<close>.\<close>

definition create_review ::
  "serializer_context \<Rightarrow> store \<Rightarrow> uuid \<Rightarrow> review_data \<Rightarrow> error + (Review \<times> store)" where
  "create_review ctx st new_id payload =
     (case review_run_validation ctx st payload of
        Inl e \<Rightarrow> Inl e
      | Inr validated_data \<Rightarrow> ReviewSerializer_create ctx st new_id validated_data)"

text \<open>
  A rejection for the rating's range: the error of \<open>validate\<close>, "Rating must be between
  1 and 5.", or a range error of the \<open>rating\<close> field.
\<close>

definition invalid_rating :: "error \<Rightarrow> bool" where
  "invalid_rating e =
     (case e of
        InvalidRating \<Rightarrow> True
      | FieldErrors es \<Rightarrow> (''rating'', MinValue) \<in> set es \<or> (''rating'', MaxValue) \<in> set es
      | _ \<Rightarrow> False)"

section \<open>The booking invariant\<close>

text \<open>
  Two bookings are in conflict when they are different rows of the same listing, both
  pending or confirmed, and their stays overlap as half-open intervals.
\<close>

definition active :: "Booking \<Rightarrow> bool" where
  "active b = (status b = Pending \<or> status b = Confirmed)"

definition in_conflict :: "Booking \<Rightarrow> Booking \<Rightarrow> bool" where
  "in_conflict b1 b2 =
     (booking_id b1 \<noteq> booking_id b2 \<and> listing b1 = listing b2 \<and> active b1 \<and> active b2 \<and>
      check_in_date b1 < check_out_date b2 \<and> check_out_date b1 > check_in_date b2)"

text \<open>The pairs of stored bookings that are in conflict, by their primary keys.\<close>

definition conflicts :: "store \<Rightarrow> (uuid \<times> uuid) list" where
  "conflicts st =
     map (\<lambda>(b1, b2). (booking_id b1, booking_id b2))
       (filter (\<lambda>(b1, b2). in_conflict b1 b2) (List.product (bookings st) (bookings st)))"

definition no_overlap :: "store \<Rightarrow> bool" where
  "no_overlap st = (conflicts st = [])"

section \<open>Example data\<close>

text \<open>
  A listing at 100.00 a night for up to four guests, bookings on it, and the payloads and
  contexts of requests, for the concrete runs below.
\<close>

definition example_listing :: Listing where
  "example_listing =
     \<lparr>listing_id = 1, price_per_night = \<lparr>coefficient = 10000, exponent = - 2\<rparr>,
      max_guests = 4, host = 1, is_available = True\<rparr>"

definition example_backend :: backend where
  "example_backend = \<lparr>positive_integer_max = 2147483647\<rparr>"

definition example_booking :: "uuid \<Rightarrow> User \<Rightarrow> date \<Rightarrow> date \<Rightarrow> status \<Rightarrow> Booking" where
  "example_booking bid g ci co s =
     \<lparr>booking_id = bid, listing = 1, guest = g, check_in_date = ci, check_out_date = co,
      number_of_guests = 2,
      total_price = \<lparr>coefficient = 10000 * (co - ci), exponent = - 2\<rparr>, status = s\<rparr>"

definition example_store :: "Booking list \<Rightarrow> Review list \<Rightarrow> store" where
  "example_store bs rs = \<lparr>listings = [example_listing], bookings = bs, reviews = rs\<rparr>"

definition example_context :: "User \<Rightarrow> serializer_context" where
  "example_context u = Some \<lparr>user = Some u\<rparr>"

definition example_payload :: "date option \<Rightarrow> date option \<Rightarrow> int option \<Rightarrow> booking_data" where
  "example_payload ci co n =
     \<lparr>d_listing_id = Some 1, d_check_in_date = ci, d_check_out_date = co,
      d_number_of_guests = n, d_listing = None, d_guest = None, d_total_price = None,
      d_status = None\<rparr>"

definition example_review :: "uuid \<Rightarrow> User \<Rightarrow> int \<Rightarrow> Review" where
  "example_review rid u r =
     \<lparr>review_id = rid, review_listing = 1, reviewer = u, review_booking = None, rating = r,
      comment = ''Great''\<rparr>"

definition example_review_payload :: "uuid option \<Rightarrow> int option \<Rightarrow> review_data" where
  "example_review_payload bid r =
     \<lparr>rd_listing_id = Some 1, rd_booking_id = bid, rd_rating = r, rd_comment = Some ''Great'',
      rd_listing = None, rd_booking = None, rd_reviewer = None\<rparr>"

section \<open>Properties of the overlap query\<close>

lemma overlapping_bookings_member:
  "b \<in> set (overlapping_bookings bs lid ci co inst) \<longleftrightarrow>
     b \<in> set bs \<and> listing b = lid \<and> (status b = Pending \<or> status b = Confirmed) \<and>
     check_in_date b < co \<and> check_out_date b > ci \<and>
     (case inst of None \<Rightarrow> True | Some i \<Rightarrow> booking_id b \<noteq> booking_id i)"
  by (auto simp: overlapping_bookings_def split: option.splits)

lemma exists_overlapping_iff:
  "exists_overlapping bs lid ci co inst \<longleftrightarrow>
     (\<exists>b. b \<in> set bs \<and> listing b = lid \<and> (status b = Pending \<or> status b = Confirmed) \<and>
        check_in_date b < co \<and> check_out_date b > ci \<and>
        (case inst of None \<Rightarrow> True | Some i \<Rightarrow> booking_id b \<noteq> booking_id i))"
proof -
  have "exists_overlapping bs lid ci co inst \<longleftrightarrow>
        (\<exists>b. b \<in> set (overlapping_bookings bs lid ci co inst))"
    by (cases "overlapping_bookings bs lid ci co inst") (auto simp: exists_overlapping_def)
  then show ?thesis
    by (simp add: overlapping_bookings_member)
qed

text \<open>
  Claim C2. Take a stored booking \<open>b\<close> of the listing and a proposed stay from \<open>ci\<close> to
  \<open>co\<close> on that listing, \<open>b\<close> not being the booking under update. The overlap query
  returns \<open>b\<close> exactly when \<open>b\<close> is pending or confirmed and
  \<open>b.check_in < co\<close> and \<open>b.check_out > ci\<close>, and a returned booking makes
  \<open>exists()\<close> true. With \<open>b\<close> alone in the table the check reports a conflict under
  exactly that condition; a booking that ends on the day the proposed stay begins never
  conflicts, and neither does a cancelled or completed one, whatever its dates.
\<close>

theorem conflict_check_iff:
  assumes "b \<in> set bs" and "listing b = lid"
    and "\<forall>i. inst = Some i \<longrightarrow> booking_id b \<noteq> booking_id i"
  shows "(b \<in> set (overlapping_bookings bs lid ci co inst) \<longleftrightarrow>
            (status b = Pending \<or> status b = Confirmed) \<and>
            check_in_date b < co \<and> check_out_date b > ci)
       \<and> (b \<in> set (overlapping_bookings bs lid ci co inst) \<longrightarrow>
            exists_overlapping bs lid ci co inst)
       \<and> (exists_overlapping [b] lid ci co inst \<longleftrightarrow>
            (status b = Pending \<or> status b = Confirmed) \<and>
            check_in_date b < co \<and> check_out_date b > ci)
       \<and> (check_out_date b = ci \<longrightarrow> \<not> exists_overlapping [b] lid ci co inst)
       \<and> (status b = Cancelled \<or> status b = Completed \<longrightarrow>
            \<not> exists_overlapping [b] lid ci co inst)"
proof -
  have ex: "(case inst of None \<Rightarrow> True | Some i \<Rightarrow> booking_id b \<noteq> booking_id i)"
    using assms(3) by (cases inst) auto
  have m: "b \<in> set (overlapping_bookings bs lid ci co inst) \<longleftrightarrow>
            (status b = Pending \<or> status b = Confirmed) \<and>
            check_in_date b < co \<and> check_out_date b > ci"
    using assms(1,2) ex by (simp add: overlapping_bookings_member)
  have e: "b \<in> set (overlapping_bookings bs lid ci co inst) \<longrightarrow>
            exists_overlapping bs lid ci co inst"
    by (auto simp: exists_overlapping_def)
  have s: "exists_overlapping [b] lid ci co inst \<longleftrightarrow>
            (status b = Pending \<or> status b = Confirmed) \<and>
            check_in_date b < co \<and> check_out_date b > ci"
    using assms(2) ex by (simp add: exists_overlapping_iff)
  have a: "check_out_date b = ci \<longrightarrow> \<not> exists_overlapping [b] lid ci co inst"
    using s by simp
  have c: "status b = Cancelled \<or> status b = Completed \<longrightarrow>
            \<not> exists_overlapping [b] lid ci co inst"
    using s by auto
  show ?thesis using m e s a c by blast
qed

text \<open>
  A confirmed booking from day 10 to day 15: a stay from 12 to 18 conflicts with it, the
  adjacent stay from 15 to 18 does not, and once cancelled it conflicts with neither.
\<close>

theorem conflict_check_iff_witness:
  "example_booking 1 7 10 15 Confirmed \<in> set [example_booking 1 7 10 15 Confirmed] \<and>
   listing (example_booking 1 7 10 15 Confirmed) = 1 \<and>
   exists_overlapping [example_booking 1 7 10 15 Confirmed] 1 12 18 None \<and>
   check_out_date (example_booking 1 7 10 15 Confirmed) = 15 \<and>
   \<not> exists_overlapping [example_booking 1 7 10 15 Confirmed] 1 15 18 None \<and>
   status (example_booking 1 7 10 15 Cancelled) = Cancelled \<and>
   \<not> exists_overlapping [example_booking 1 7 10 15 Cancelled] 1 12 18 None"
  using conflict_check_iff [of "example_booking 1 7 10 15 Confirmed"
      "[example_booking 1 7 10 15 Confirmed]" 1 None 12 18]
    conflict_check_iff [of "example_booking 1 7 10 15 Confirmed"
      "[example_booking 1 7 10 15 Confirmed]" 1 None 15 18]
    conflict_check_iff [of "example_booking 1 7 10 15 Cancelled"
      "[example_booking 1 7 10 15 Cancelled]" 1 None 12 18]
  by (simp add: example_booking_def)

section \<open>Evaluation rules and auxiliary facts\<close>

declare ndigits.simps [simp del]

lemmas example_defs =
  example_listing_def example_booking_def example_store_def example_context_def
  example_payload_def example_review_payload_def example_review_def example_backend_def

lemmas field_eval =
  to_internal_value_def booking_field_errors_def required_error_def number_of_guests_errors_def
  review_to_internal_value_def review_field_errors_def rating_errors_def comment_errors_def

lemmas booking_eval =
  create_booking_def update_booking_def booking_run_validation_def field_eval
  BookingSerializer_validate_def
  validate_dates_def exceeds_capacity_def Listing_objects_get_def exists_overlapping_def
  overlapping_bookings_def BookingSerializer_create_def BookingSerializer_update_def
  Booking_objects_create_def booking_row_def format_number_def rescale_def
  request_user_def decimal_mul_int_def decimal_fix_def
  ndigits.simps prec_def Let_def

lemmas review_eval =
  create_review_def review_run_validation_def field_eval ReviewSerializer_validate_def
  rating_out_of_range_def Listing_objects_get_def Booking_objects_get_def
  ReviewSerializer_create_def Review_objects_create_def request_user_def Let_def

lemmas date_eval =
  ymd2ord_def days_before_year_def days_before_month_def is_leap_def valid_date_def

lemma validate_dates_Inr:
  "validate_dates today a b = Inr () \<longleftrightarrow>
     (\<forall>ci co. a = Some ci \<and> b = Some co \<longrightarrow> ci < co \<and> today \<le> ci)"
  by (auto simp: validate_dates_def split: option.splits)

lemma validate_found:
  assumes "validate_dates today (d_check_in_date data) (d_check_out_date data) = Inr ()"
    and "d_listing_id data = Some lid" and "Listing_objects_get st lid = Some l"
  shows "BookingSerializer_validate today st inst data =
     (if \<not> is_available l then Inl ListingUnavailable
      else if exceeds_capacity (d_number_of_guests data) l then Inl GuestCapacityExceeded
      else case (d_check_in_date data, d_check_out_date data) of
             (Some ci, Some co) \<Rightarrow>
               if exists_overlapping (bookings st) (listing_id l) ci co inst
               then Inl DateRangeConflict else Inr (data\<lparr>d_listing := Some l\<rparr>)
           | _ \<Rightarrow> Inr (data\<lparr>d_listing := Some l\<rparr>))"
  using assms by (simp add: BookingSerializer_validate_def Let_def)

lemma Listing_objects_get_id:
  "Listing_objects_get st lid = Some l \<Longrightarrow> listing_id l = lid"
  by (auto simp: Listing_objects_get_def find_Some_iff)

lemma ndigits_le: "n < 10 ^ k \<Longrightarrow> 0 < k \<Longrightarrow> ndigits n \<le> k"
proof (induction k arbitrary: n)
  case 0
  then show ?case by simp
next
  case (Suc k)
  show ?case
  proof (cases "n < 10")
    case True
    then show ?thesis by (simp add: ndigits.simps)
  next
    case False
    have lt: "n div 10 < 10 ^ k"
      using Suc.prems(1) by (simp add: less_mult_imp_div_less mult.commute)
    have "0 < k"
    proof (rule ccontr)
      assume "\<not> 0 < k"
      then have "n < 10" using Suc.prems(1) by simp
      with False show False by simp
    qed
    from Suc.IH[OF lt this] False show ?thesis
      by (simp add: ndigits.simps)
  qed
qed

lemma decimal_fix_small:
  "\<bar>coefficient d\<bar> < 10 ^ 28 \<Longrightarrow> decimal_fix d = d"
proof -
  assume a: "\<bar>coefficient d\<bar> < 10 ^ 28"
  have "nat \<bar>coefficient d\<bar> < 10 ^ 28"
    using a by (simp add: nat_less_iff)
  then have "ndigits (nat \<bar>coefficient d\<bar>) \<le> 28"
    by (rule ndigits_le) simp
  then show ?thesis
    by (simp add: decimal_fix_def prec_def Let_def)
qed

lemma decimal_mul_int_exact:
  assumes "\<bar>coefficient d * n\<bar> < 10 ^ 28"
  shows "decimal_mul_int d n = \<lparr>coefficient = coefficient d * n, exponent = exponent d\<rparr>"
  using assms by (simp add: decimal_mul_int_def decimal_fix_small)

lemma price_times_nights_small:
  assumes "valid_price p" and "valid_date ci" and "valid_date co"
  shows "\<bar>coefficient p * (co - ci)\<bar> < 10 ^ 28"
proof -
  have c: "\<bar>coefficient p\<bar> < 10 ^ 10"
    using assms(1) by (simp add: valid_price_def)
  have n: "\<bar>co - ci\<bar> < 10 ^ 7"
    using assms(2,3) by (auto simp: valid_date_def abs_if)
  have "\<bar>coefficient p\<bar> * \<bar>co - ci\<bar> < 10 ^ 10 * 10 ^ 7"
    by (rule mult_strict_mono'[OF c n]) simp_all
  then show ?thesis by (simp add: abs_mult)
qed

lemma booking_field_errors_Nil:
  "booking_field_errors be partial p = [] \<longleftrightarrow>
     (partial \<or> (d_listing_id p \<noteq> None \<and> d_check_in_date p \<noteq> None \<and>
                  d_check_out_date p \<noteq> None \<and> d_number_of_guests p \<noteq> None)) \<and>
     (\<forall>n. d_number_of_guests p = Some n \<longrightarrow> 1 \<le> n \<and> n \<le> positive_integer_max be)"
  by (auto simp: booking_field_errors_def required_error_def number_of_guests_errors_def
      split: option.splits)

lemma to_internal_value_Inr:
  "to_internal_value be partial p = Inr d \<longleftrightarrow>
     booking_field_errors be partial p = [] \<and>
     d = p\<lparr>d_listing := None, d_guest := None, d_total_price := None, d_status := None\<rparr>"
  by (auto simp: to_internal_value_def split: list.splits)

lemma booking_row_fields:
  assumes "booking_row be st b = Inr row"
  shows "booking_id row = booking_id b \<and> listing row = listing b \<and> guest row = guest b \<and>
         check_in_date row = check_in_date b \<and> check_out_date row = check_out_date b \<and>
         number_of_guests row = number_of_guests b \<and> status row = status b \<and>
         format_number (total_price b) 10 2 = Some (total_price row) \<and>
         check_in_date b < check_out_date b"
  using assms by (auto simp: booking_row_def split: option.splits if_splits)

lemma format_number_two_places:
  assumes "exponent p = - 2" and "format_number p 10 2 = Some q"
  shows "q = p"
  using assms
  by (cases p) (auto simp: format_number_def rescale_def Let_def split: if_splits)

lemma booking_row_two_places:
  assumes "booking_row be st b = Inr row" and "exponent (total_price b) = - 2"
  shows "row = b"
proof -
  from booking_row_fields[OF assms(1)] have
    f: "booking_id row = booking_id b" "listing row = listing b" "guest row = guest b"
       "check_in_date row = check_in_date b" "check_out_date row = check_out_date b"
       "number_of_guests row = number_of_guests b" "status row = status b"
    and q: "format_number (total_price b) 10 2 = Some (total_price row)"
    by simp_all
  have "total_price row = total_price b"
    by (rule format_number_two_places[OF assms(2) q])
  with f show ?thesis by (simp add: Booking.equality)
qed

lemma create_booking_Inr:
  assumes "create_booking be today ctx st new_id payload = Inr (b, st')"
  shows "\<exists>lid l ci co n g row.
     d_listing_id payload = Some lid \<and> Listing_objects_get st lid = Some l \<and>
     d_check_in_date payload = Some ci \<and> d_check_out_date payload = Some co \<and>
     d_number_of_guests payload = Some n \<and> request_user ctx = Some g \<and>
     ci < co \<and> today \<le> ci \<and> is_available l \<and> 1 \<le> n \<and> n \<le> int (max_guests l) \<and>
     \<not> exists_overlapping (bookings st) lid ci co None \<and>
     new_id \<notin> set (map booking_id (bookings st)) \<and>
     b = \<lparr>booking_id = new_id, listing = lid, guest = g, check_in_date = ci,
          check_out_date = co, number_of_guests = n,
          total_price = decimal_mul_int (price_per_night l) (co - ci), status = Pending\<rparr> \<and>
     booking_row be st b = Inr row \<and>
     st' = st\<lparr>bookings := row # bookings st\<rparr>"
proof -
  obtain d where ti: "to_internal_value be False payload = Inr d"
    and v0: "booking_run_validation be today st None False payload
             = BookingSerializer_validate today st None d"
    using assms
    by (cases "to_internal_value be False payload")
       (auto simp: create_booking_def booking_run_validation_def)
  obtain vd where v: "BookingSerializer_validate today st None d = Inr vd"
    and c: "BookingSerializer_create be ctx st new_id vd = Inr (b, st')"
    using assms v0 by (auto simp: create_booking_def split: sum.splits)
  have fe: "booking_field_errors be False payload = []"
    and d: "d = payload\<lparr>d_listing := None, d_guest := None, d_total_price := None,
                         d_status := None\<rparr>"
    using ti by (simp_all add: to_internal_value_Inr)
  from fe obtain lid ci co n where
    p: "d_listing_id payload = Some lid" "d_check_in_date payload = Some ci"
       "d_check_out_date payload = Some co" "d_number_of_guests payload = Some n"
    and nr: "1 \<le> n"
    by (auto simp: booking_field_errors_Nil)
  have pd: "d_listing_id d = Some lid" "d_check_in_date d = Some ci"
       "d_check_out_date d = Some co" "d_number_of_guests d = Some n"
       "d_guest d = None" "d_status d = None"
    using p d by simp_all
  obtain l where l: "Listing_objects_get st lid = Some l"
    using v pd(1) by (auto simp: BookingSerializer_validate_def Let_def
        split: sum.splits option.splits)
  have vdates: "validate_dates today (d_check_in_date d) (d_check_out_date d) = Inr ()"
    using v by (auto simp: BookingSerializer_validate_def Let_def split: sum.splits)
  have dates: "ci < co" "today \<le> ci"
    using vdates pd(2,3) by (auto simp: validate_dates_Inr)
  note vf = validate_found[OF vdates pd(1) l, of None]
  have lid_eq: "listing_id l = lid"
    by (rule Listing_objects_get_id[OF l])
  have avail: "is_available l" and cap: "\<not> exceeds_capacity (Some n) l"
    using vf v pd(4) by (auto split: if_splits)
  have nmax: "n \<le> int (max_guests l)"
    using cap nr by (auto simp: exceeds_capacity_def)
  have noov: "\<not> exists_overlapping (bookings st) lid ci co None"
    and vd: "vd = d\<lparr>d_listing := Some l\<rparr>"
    using vf v avail cap pd(2,3,4) lid_eq by (auto split: if_splits)
  let ?b = "\<lparr>booking_id = new_id, listing = lid, guest = the (request_user ctx),
          check_in_date = ci, check_out_date = co, number_of_guests = n,
          total_price = decimal_mul_int (price_per_night l) (co - ci), status = Pending\<rparr>"
  have cr: "request_user ctx \<noteq> None \<and> new_id \<notin> set (map booking_id (bookings st)) \<and>
            b = ?b \<and> (\<exists>row. booking_row be st ?b = Inr row \<and>
                             st' = st\<lparr>bookings := row # bookings st\<rparr>)"
    using c pd lid_eq unfolding vd
    by (auto simp: BookingSerializer_create_def Booking_objects_create_def Let_def
        split: option.splits if_splits sum.splits)
  then obtain g row where g: "request_user ctx = Some g"
    and row: "booking_row be st ?b = Inr row" "st' = st\<lparr>bookings := row # bookings st\<rparr>"
    by auto
  show ?thesis
    using p l dates avail nr nmax noov cr g row by auto
qed

lemma create_booking_Inr_store:
  assumes "create_booking be today ctx st new_id payload = Inr (b, st')"
  shows "\<exists>row. st' = st\<lparr>bookings := row # bookings st\<rparr> \<and> booking_id row = new_id \<and>
         listing row = listing b \<and> check_in_date row = check_in_date b \<and>
         check_out_date row = check_out_date b \<and> status row = Pending \<and>
         new_id \<notin> set (map booking_id (bookings st)) \<and>
         \<not> exists_overlapping (bookings st) (listing b) (check_in_date b) (check_out_date b) None"
proof -
  have "\<exists>row. booking_row be st b = Inr row \<and> st' = st\<lparr>bookings := row # bookings st\<rparr> \<and>
          booking_id b = new_id \<and> status b = Pending \<and>
          new_id \<notin> set (map booking_id (bookings st)) \<and>
          \<not> exists_overlapping (bookings st) (listing b) (check_in_date b) (check_out_date b) None"
    using create_booking_Inr[OF assms] by (elim exE conjE) auto
  then obtain row where r: "booking_row be st b = Inr row"
    and h: "st' = st\<lparr>bookings := row # bookings st\<rparr>" "booking_id b = new_id"
      "status b = Pending" "new_id \<notin> set (map booking_id (bookings st))"
      "\<not> exists_overlapping (bookings st) (listing b) (check_in_date b) (check_out_date b) None"
    by blast
  from booking_row_fields[OF r] h show ?thesis
    by (intro exI[of _ row]) simp
qed

lemma ReviewSerializer_validate_Inr:
  assumes "ReviewSerializer_validate ctx st data = Inr vd"
  shows "rd_listing_id vd = rd_listing_id data \<and> rd_rating vd = rd_rating data \<and>
         rd_reviewer vd = rd_reviewer data \<and> rd_comment vd = rd_comment data \<and>
         rd_booking_id vd = rd_booking_id data \<and>
         (\<forall>lid. rd_listing_id data = Some lid \<longrightarrow>
            (\<exists>l. Listing_objects_get st lid = Some l \<and> rd_listing vd = Some l)) \<and>
         (\<forall>bid. rd_booking_id data = Some bid \<longrightarrow>
            (\<exists>bk. Booking_objects_get st bid = Some bk \<and> rd_booking vd = Some bk)) \<and>
         (rd_booking_id data = None \<longrightarrow> rd_booking vd = rd_booking data)"
  using assms
  by (auto simp: ReviewSerializer_validate_def split: if_splits option.splits sum.splits)

lemma review_validate_booking:
  assumes "\<not> rating_out_of_range (rd_rating data)"
    and "rd_listing_id data = Some lid" and "Listing_objects_get st lid = Some l"
    and "rd_booking_id data = Some bid" and "Booking_objects_get st bid = Some bk"
  shows "ReviewSerializer_validate ctx st data =
     (case request_user ctx of
        None \<Rightarrow> Inr (data\<lparr>rd_listing := Some l, rd_booking := Some bk\<rparr>)
      | Some u \<Rightarrow>
          if guest bk \<noteq> u then Inl NotBookingOwner
          else if status bk \<noteq> Completed then Inl BookingNotCompleted
          else Inr (data\<lparr>rd_listing := Some l, rd_booking := Some bk\<rparr>))"
  using assms by (simp add: ReviewSerializer_validate_def split: option.splits)

section \<open>Where the booking invariant is kept\<close>

text \<open>
  A created booking, and an updated one whose payload carries the listing and both dates,
  have passed the overlap query, so they keep the table free of conflicts.
\<close>

lemma no_overlap_iff:
  "no_overlap st \<longleftrightarrow>
     (\<forall>b1 \<in> set (bookings st). \<forall>b2 \<in> set (bookings st). \<not> in_conflict b1 b2)"
  by (auto simp: no_overlap_def conflicts_def filter_empty_conv)

lemma not_overlapping_no_conflict:
  assumes "\<not> exists_overlapping bs lid ci co inst"
    and "x \<in> set bs"
    and "case inst of None \<Rightarrow> True | Some i \<Rightarrow> booking_id x \<noteq> booking_id i"
    and "listing b = lid" and "check_in_date b = ci" and "check_out_date b = co"
  shows "\<not> in_conflict b x" and "\<not> in_conflict x b"
proof -
  have "\<not> (listing x = lid \<and> (status x = Pending \<or> status x = Confirmed) \<and>
            check_in_date x < co \<and> check_out_date x > ci)"
    using assms(1,2,3) by (auto simp: exists_overlapping_iff)
  then show "\<not> in_conflict b x" and "\<not> in_conflict x b"
    using assms(4,5,6) by (auto simp: in_conflict_def active_def)
qed

lemma create_booking_preserves_no_overlap:
  assumes ok: "create_booking be today ctx st new_id payload = Inr (b, st')"
    and inv: "no_overlap st"
  shows "no_overlap st'"
proof -
  from create_booking_Inr_store[OF ok] obtain row where
    st': "st' = st\<lparr>bookings := row # bookings st\<rparr>" and
    row: "listing row = listing b" "check_in_date row = check_in_date b"
      "check_out_date row = check_out_date b" and
    noov: "\<not> exists_overlapping (bookings st) (listing b) (check_in_date b) (check_out_date b) None"
    by blast
  have new: "\<not> in_conflict row x \<and> \<not> in_conflict x row" if "x \<in> set (bookings st)" for x
    using not_overlapping_no_conflict[OF noov that, of row] row by simp
  have self: "\<not> in_conflict row row"
    by (simp add: in_conflict_def)
  show ?thesis
    using inv new self unfolding no_overlap_iff st' by auto
qed

lemma update_booking_full_Inr:
  assumes ok: "update_booking be today st inst partial payload = Inr (b, st')"
    and lid: "d_listing_id payload = Some lid"
    and ci: "d_check_in_date payload = Some ci" and co: "d_check_out_date payload = Some co"
  shows "\<exists>row. \<not> exists_overlapping (bookings st) lid ci co (Some inst) \<and>
         booking_id row = booking_id inst \<and> listing row = lid \<and>
         check_in_date row = ci \<and> check_out_date row = co \<and>
         st' = st\<lparr>bookings :=
                   (if booking_id inst \<in> set (map booking_id (bookings st))
                    then map (\<lambda>x. if booking_id x = booking_id inst then row else x)
                           (bookings st)
                    else row # bookings st)\<rparr>"
proof -
  obtain d where ti: "to_internal_value be partial payload = Inr d"
    and v0: "booking_run_validation be today st (Some inst) partial payload
             = BookingSerializer_validate today st (Some inst) d"
    using ok
    by (cases "to_internal_value be partial payload")
       (auto simp: update_booking_def booking_run_validation_def)
  obtain vd where v: "BookingSerializer_validate today st (Some inst) d = Inr vd"
    and u: "BookingSerializer_update be st inst vd = Inr (b, st')"
    using ok v0 by (auto simp: update_booking_def split: sum.splits)
  have d: "d = payload\<lparr>d_listing := None, d_guest := None, d_total_price := None,
                         d_status := None\<rparr>"
    using ti by (simp add: to_internal_value_Inr)
  have f: "d_listing_id d = Some lid" "d_check_in_date d = Some ci"
    "d_check_out_date d = Some co" "d_guest d = None" "d_status d = None"
    "d_total_price d = None"
    using lid ci co d by simp_all
  obtain l where l: "Listing_objects_get st lid = Some l"
    using v f(1) by (auto simp: BookingSerializer_validate_def Let_def
        split: sum.splits option.splits)
  have vdates: "validate_dates today (d_check_in_date d) (d_check_out_date d) = Inr ()"
    using v by (auto simp: BookingSerializer_validate_def Let_def split: sum.splits)
  note vf = validate_found[OF vdates f(1) l, of "Some inst"]
  have lid_eq: "listing_id l = lid"
    by (rule Listing_objects_get_id[OF l])
  have noov: "\<not> exists_overlapping (bookings st) lid ci co (Some inst)"
    and vd: "vd = d\<lparr>d_listing := Some l\<rparr>"
    using vf v f(2,3) lid_eq by (auto split: if_splits)
  obtain row where row: "booking_row be st b = Inr row"
    and st': "st' = st\<lparr>bookings :=
                   (if booking_id inst \<in> set (map booking_id (bookings st))
                    then map (\<lambda>x. if booking_id x = booking_id inst then row else x)
                           (bookings st)
                    else row # bookings st)\<rparr>"
    and b: "booking_id b = booking_id inst" "listing b = lid" "check_in_date b = ci"
      "check_out_date b = co"
    using u lid_eq f unfolding vd
    by (auto simp: BookingSerializer_update_def Let_def split: sum.splits)
  from booking_row_fields[OF row] b noov st' show ?thesis
    by (intro exI[of _ row]) simp
qed

lemma update_booking_full_preserves_no_overlap:
  assumes ok: "update_booking be today st inst partial payload = Inr (b, st')"
    and lid: "d_listing_id payload = Some lid"
    and ci: "d_check_in_date payload = Some ci" and co: "d_check_out_date payload = Some co"
    and inv: "no_overlap st"
  shows "no_overlap st'"
proof -
  from update_booking_full_Inr[OF ok lid ci co] obtain row where
    noov: "\<not> exists_overlapping (bookings st) lid ci co (Some inst)" and
    b: "booking_id row = booking_id inst" "listing row = lid" "check_in_date row = ci"
       "check_out_date row = co" and
    st': "st' = st\<lparr>bookings :=
                   (if booking_id inst \<in> set (map booking_id (bookings st))
                    then map (\<lambda>x. if booking_id x = booking_id inst then row else x)
                           (bookings st)
                    else row # bookings st)\<rparr>"
    by blast
  have mem: "x = row \<or> (x \<in> set (bookings st) \<and> booking_id x \<noteq> booking_id inst)"
    if "x \<in> set (bookings st')" for x
  proof (cases "booking_id inst \<in> set (map booking_id (bookings st))")
    case True
    then show ?thesis
      using that unfolding st' by (auto split: if_splits)
  next
    case False
    then have "\<forall>y \<in> set (bookings st). booking_id y \<noteq> booking_id inst"
      by (auto simp: image_iff)
    then show ?thesis
      using that False unfolding st' by auto
  qed
  have new: "\<not> in_conflict row x \<and> \<not> in_conflict x row"
    if "x \<in> set (bookings st)" "booking_id x \<noteq> booking_id inst" for x
    using not_overlapping_no_conflict[OF noov that(1), of row] that(2) b by simp
  have self: "\<not> in_conflict row row"
    by (simp add: in_conflict_def)
  have old: "\<not> in_conflict x y" if "x \<in> set (bookings st)" "y \<in> set (bookings st)" for x y
    using inv that by (simp add: no_overlap_iff)
  show ?thesis
    unfolding no_overlap_iff
  proof (intro ballI)
    fix x y assume "x \<in> set (bookings st')" "y \<in> set (bookings st')"
    then show "\<not> in_conflict x y"
      using mem[of x] mem[of y] new self old by blast
  qed
qed

section \<open>Booking validation\<close>

text \<open>
  Claim C1. The run that breaks the invariant. Two guests book the listing for days 10 to
  15 and 20 to 25; both requests pass validation and the stored bookings are free of
  conflicts. The second booking is then updated with a payload that carries the two dates
  only (a partial update, days 11 to 14). \<open>validate\<close> runs the overlap query inside
  \<open>if listing_id:\<close>, the payload has no \<open>listing_id\<close>, so the query is skipped, the
  update is accepted and the table now holds two pending bookings of one listing whose
  stays overlap. The same update with the \<open>listing_id\<close> in the payload is refused with
  \<open>DateRangeConflict\<close>.
\<close>

theorem partial_update_overlap:
  "create_booking example_backend 5 (example_context 7) (example_store [] []) 1
     (example_payload (Some 10) (Some 15) (Some 2))
   = Inr (example_booking 1 7 10 15 Pending, example_store [example_booking 1 7 10 15 Pending] [])
   \<and> create_booking example_backend 5 (example_context 8)
       (example_store [example_booking 1 7 10 15 Pending] []) 2
       (example_payload (Some 20) (Some 25) (Some 2))
   = Inr (example_booking 2 8 20 25 Pending,
          example_store [example_booking 2 8 20 25 Pending, example_booking 1 7 10 15 Pending] [])
   \<and> conflicts (example_store [example_booking 2 8 20 25 Pending,
                                 example_booking 1 7 10 15 Pending] []) = []
   \<and> update_booking example_backend 5
       (example_store [example_booking 2 8 20 25 Pending, example_booking 1 7 10 15 Pending] [])
       (example_booking 2 8 20 25 Pending) True
       ((example_payload (Some 11) (Some 14) None)\<lparr>d_listing_id := None\<rparr>)
   = Inr ((example_booking 2 8 20 25 Pending)\<lparr>check_in_date := 11, check_out_date := 14\<rparr>,
          example_store [(example_booking 2 8 20 25 Pending)\<lparr>check_in_date := 11, check_out_date := 14\<rparr>,
                         example_booking 1 7 10 15 Pending] [])
   \<and> conflicts (example_store [(example_booking 2 8 20 25 Pending)\<lparr>check_in_date := 11, check_out_date := 14\<rparr>,
                         example_booking 1 7 10 15 Pending] []) = [(2, 1), (1, 2)]
   \<and> update_booking example_backend 5
       (example_store [example_booking 2 8 20 25 Pending, example_booking 1 7 10 15 Pending] [])
       (example_booking 2 8 20 25 Pending) True
       (example_payload (Some 11) (Some 14) None)
   = Inl DateRangeConflict"
  by (simp add: example_defs booking_eval conflicts_def in_conflict_def active_def)



text \<open>
  Claim C4, as stated, fails on the kind of the error: a request for zero guests is
  refused, but by the \<open>number_of_guests\<close> field (\<open>min_value\<close>, from the model's
  \<open>MinValueValidator(1)\<close>) before \<open>validate\<close> runs, not with
  \<open>GuestCapacityExceeded\<close>.
\<close>

theorem zero_guests_counterexample:
  "booking_run_validation example_backend 100 (example_store [] []) None False
     (example_payload (Some 110) (Some 115) (Some 0))
   = Inl (FieldErrors [(''number_of_guests'', MinValue)])"
  by (simp add: example_defs booking_run_validation_def field_eval)

text \<open>
  Claim C4, amended. Take a booking request that names an existing, available listing
  and carries dates that pass the date checks. Validation accepts only a guest count
  with \<open>0 < n\<close> and \<open>n \<le> max_guests\<close>, and accepts every such count when no stored
  booking conflicts. It fails with \<open>GuestCapacityExceeded\<close> exactly when the count is
  greater than \<open>max_guests\<close> (and within the range of the integer column); a count
  below 1 is refused by the field with \<open>min_value\<close>, a count beyond the column's range
  with \<open>max_value\<close>. A count equal to the maximum is accepted, the maximum plus one is
  refused, zero is refused. \<open>Listing.max_guests\<close> is stored in a column of the same
  kind, so it lies within the backend's range.
\<close>

theorem capacity_check:
  fixes be :: backend and today :: date and st :: store and inst :: "Booking option"
    and partial :: bool and payload :: booking_data
  defines "V \<equiv> booking_run_validation be today st inst partial payload"
  assumes lid: "d_listing_id payload = Some lid" and l: "Listing_objects_get st lid = Some l"
    and avail: "is_available l"
    and ci: "d_check_in_date payload = Some ci" and co: "d_check_out_date payload = Some co"
    and dates: "ci < co" "today \<le> ci"
    and n: "d_number_of_guests payload = Some n"
    and mg: "int (max_guests l) \<le> positive_integer_max be"
  shows "((\<exists>d. V = Inr d) \<longrightarrow> 0 < n \<and> n \<le> int (max_guests l))
       \<and> (0 < n \<and> n \<le> int (max_guests l) \<and>
          \<not> exists_overlapping (bookings st) lid ci co inst \<longrightarrow>
            V = Inr (payload\<lparr>d_listing := Some l, d_guest := None, d_total_price := None,
                             d_status := None\<rparr>))
       \<and> (V = Inl GuestCapacityExceeded \<longleftrightarrow>
            int (max_guests l) < n \<and> n \<le> positive_integer_max be)
       \<and> (n < 1 \<longrightarrow> V = Inl (FieldErrors [(''number_of_guests'', MinValue)]))
       \<and> (positive_integer_max be < n \<longrightarrow>
            V = Inl (FieldErrors [(''number_of_guests'', MaxValue)]))
       \<and> (n = int (max_guests l) + 1 \<longrightarrow> (\<exists>e. V = Inl e))
       \<and> (n = 0 \<longrightarrow> (\<exists>e. V = Inl e \<and> e \<noteq> GuestCapacityExceeded))"
proof -
  let ?d = "payload\<lparr>d_listing := None, d_guest := None, d_total_price := None,
                     d_status := None\<rparr>"
  have fe: "booking_field_errors be partial payload =
     (if n > positive_integer_max be then [(''number_of_guests'', MaxValue)]
      else if n < 1 then [(''number_of_guests'', MinValue)] else [])"
    using lid ci co n
    by (simp add: booking_field_errors_def required_error_def number_of_guests_errors_def)
  have lid_eq: "listing_id l = lid"
    by (rule Listing_objects_get_id[OF l])
  have vd: "validate_dates today (d_check_in_date ?d) (d_check_out_date ?d) = Inr ()"
    using ci co dates by (simp add: validate_dates_Inr)
  have cap: "exceeds_capacity (Some n) l \<longleftrightarrow> n \<noteq> 0 \<and> n > int (max_guests l)"
    by (simp add: exceeds_capacity_def)
  have val: "BookingSerializer_validate today st inst ?d =
     (if exceeds_capacity (Some n) l then Inl GuestCapacityExceeded
      else if exists_overlapping (bookings st) lid ci co inst then Inl DateRangeConflict
      else Inr (?d\<lparr>d_listing := Some l\<rparr>))"
    using validate_found[OF vd, of lid st l inst] lid l avail ci co n lid_eq by simp
  have V: "V =
     (if n > positive_integer_max be then Inl (FieldErrors [(''number_of_guests'', MaxValue)])
      else if n < 1 then Inl (FieldErrors [(''number_of_guests'', MinValue)])
      else if n > int (max_guests l) then Inl GuestCapacityExceeded
      else if exists_overlapping (bookings st) lid ci co inst then Inl DateRangeConflict
      else Inr (payload\<lparr>d_listing := Some l, d_guest := None, d_total_price := None,
                        d_status := None\<rparr>))"
    unfolding V_def booking_run_validation_def to_internal_value_def fe
    using val cap by simp
  show ?thesis
    unfolding V using mg by auto
qed

theorem capacity_check_witness:
  "max_guests example_listing = 4 \<and>
   booking_run_validation example_backend 100 (example_store [] []) None False
     (example_payload (Some 110) (Some 115) (Some 5)) = Inl GuestCapacityExceeded \<and>
   booking_run_validation example_backend 100 (example_store [] []) None False
     (example_payload (Some 110) (Some 115) (Some 4))
   = Inr ((example_payload (Some 110) (Some 115) (Some 4))\<lparr>d_listing := Some example_listing\<rparr>) \<and>
   booking_run_validation example_backend 100 (example_store [] []) None False
     (example_payload (Some 110) (Some 115) (Some 0))
   = Inl (FieldErrors [(''number_of_guests'', MinValue)])"
  using
    capacity_check [where payload = "example_payload (Some 110) (Some 115) (Some 5)"
      and be = example_backend and partial = False and ci = 110 and co = 115
      and today = 100 and st = "example_store [] []" and inst = None and lid = 1
      and l = example_listing and n = 5]
    capacity_check [where payload = "example_payload (Some 110) (Some 115) (Some 4)"
      and be = example_backend and partial = False and ci = 110 and co = 115
      and today = 100 and st = "example_store [] []" and inst = None and lid = 1
      and l = example_listing and n = 4]
    capacity_check [where payload = "example_payload (Some 110) (Some 115) (Some 0)"
      and be = example_backend and partial = False and ci = 110 and co = 115
      and today = 100 and st = "example_store [] []" and inst = None and lid = 1
      and l = example_listing and n = 0]
  by (simp add: example_defs Listing_objects_get_def
      exists_overlapping_def overlapping_bookings_def)

text \<open>
  Claim C6, as stated, fails: today being day 100, an update of a stored booking to the
  days 60 to 65 is refused with \<open>PastCheckInDate\<close>.
\<close>

theorem past_check_in_on_update_counterexample:
  "update_booking example_backend 100 (example_store [example_booking 1 7 50 55 Confirmed] [])
     (example_booking 1 7 50 55 Confirmed) False (example_payload (Some 60) (Some 65) (Some 2))
   = Inl PastCheckInDate"
  by (simp add: example_defs booking_eval)

text \<open>
  Claim C6, amended. \<open>validate\<close> does not look at \<open>self.instance\<close> for its date
  checks: when the data carry both dates, check-out after check-in and check-in before
  today, it fails with \<open>PastCheckInDate\<close> on creation and on update alike, and so does
  every creation or update request whose fields are in order.
\<close>

theorem past_check_in_on_update:
  assumes "d_check_in_date payload = Some ci" and "d_check_out_date payload = Some co"
    and "ci < co" and "ci < today"
  shows "BookingSerializer_validate today st None payload = Inl PastCheckInDate
       \<and> BookingSerializer_validate today st (Some b) payload = Inl PastCheckInDate
       \<and> (booking_field_errors be False payload = [] \<longrightarrow>
            create_booking be today ctx st new_id payload = Inl PastCheckInDate)
       \<and> (booking_field_errors be partial payload = [] \<longrightarrow>
            update_booking be today st b partial payload = Inl PastCheckInDate)"
proof -
  have v: "BookingSerializer_validate today st inst d = Inl PastCheckInDate"
    if "d_check_in_date d = Some ci" "d_check_out_date d = Some co" for inst d
    using that assms(3,4)
    by (simp add: BookingSerializer_validate_def validate_dates_def)
  have r: "booking_run_validation be today st inst p payload = Inl PastCheckInDate"
    if "booking_field_errors be p payload = []" for inst p
    using that assms(1,2)
    by (simp add: booking_run_validation_def to_internal_value_def v)
  show ?thesis
    using v[OF assms(1,2)] r by (simp add: create_booking_def update_booking_def)
qed

theorem past_check_in_on_update_witness:
  "d_check_in_date (example_payload (Some 60) (Some 65) (Some 2)) = Some 60 \<and>
   d_check_out_date (example_payload (Some 60) (Some 65) (Some 2)) = Some 65 \<and>
   (60 :: int) < 65 \<and> (60 :: int) < 100 \<and>
   booking_field_errors example_backend False (example_payload (Some 60) (Some 65) (Some 2)) = [] \<and>
   BookingSerializer_validate 100 (example_store [example_booking 1 7 50 55 Cancelled] [])
     (Some (example_booking 1 7 50 55 Cancelled)) (example_payload (Some 60) (Some 65) (Some 2))
   = Inl PastCheckInDate \<and>
   update_booking example_backend 100 (example_store [example_booking 1 7 50 55 Cancelled] [])
     (example_booking 1 7 50 55 Cancelled) False (example_payload (Some 60) (Some 65) (Some 2))
   = Inl PastCheckInDate"
  using past_check_in_on_update [where payload = "example_payload (Some 60) (Some 65) (Some 2)"
      and ci = 60 and co = 65 and today = 100
      and st = "example_store [example_booking 1 7 50 55 Cancelled] []"
      and b = "example_booking 1 7 50 55 Cancelled" and be = example_backend
      and partial = False]
  by (simp add: example_payload_def example_backend_def field_eval)

section \<open>Pricing and server-side fields\<close>

text \<open>
  Claim C5. For every booking that validation accepted and \<open>create\<close> stored, check-in
  is before check-out and the total price is the nightly price times the day difference,
  exactly: its coefficient is the price's coefficient times the number of nights, its
  exponent is still -2 (two decimal places), and its value is the product of the values.
  The price is a stored \<open>DecimalField(max_digits=10, decimal_places=2)\<close> and the dates
  are dates Python can represent, so the product stays far below the 28 digits at which
  Decimal arithmetic would round.
\<close>

theorem total_price_exact:
  assumes ok: "create_booking be today ctx st new_id payload = Inr (b, st')"
    and l: "Listing_objects_get st (listing b) = Some l"
    and p: "valid_price (price_per_night l)"
    and d: "valid_date (check_in_date b)" "valid_date (check_out_date b)"
  shows "check_in_date b < check_out_date b
       \<and> total_price b =
           \<lparr>coefficient = coefficient (price_per_night l) * (check_out_date b - check_in_date b),
            exponent = - 2\<rparr>
       \<and> dec_value (total_price b) =
           dec_value (price_per_night l) * of_int (check_out_date b - check_in_date b)
       \<and> st' = st\<lparr>bookings := b # bookings st\<rparr>"
proof -
  from create_booking_Inr[OF ok] obtain lid l' ci co n g row where
    l': "Listing_objects_get st lid = Some l'" and lt: "ci < co" and
    b: "b = \<lparr>booking_id = new_id, listing = lid, guest = g, check_in_date = ci,
          check_out_date = co, number_of_guests = n,
          total_price = decimal_mul_int (price_per_night l') (co - ci), status = Pending\<rparr>" and
    row: "booking_row be st b = Inr row" "st' = st\<lparr>bookings := row # bookings st\<rparr>"
    by (elim exE conjE) (rule that)
  have ll: "l' = l" using l l' b by simp
  have small: "\<bar>coefficient (price_per_night l) * (co - ci)\<bar> < 10 ^ 28"
    using price_times_nights_small[OF p] d b by simp
  have e: "exponent (price_per_night l) = - 2"
    using p by (simp add: valid_price_def)
  have tp: "total_price b = \<lparr>coefficient = coefficient (price_per_night l) * (co - ci),
            exponent = - 2\<rparr>"
    using decimal_mul_int_exact[OF small] b ll e by simp
  have dv: "dec_value (total_price b) = dec_value (price_per_night l) * of_int (co - ci)"
    unfolding tp by (simp add: dec_value_def e)
  have "row = b"
    using booking_row_two_places[OF row(1)] tp by simp
  then show ?thesis using lt tp dv b row(2) by simp
qed

text \<open>
  100.00 a night from 2024-01-01 to 2024-01-04: three nights, 300.00.
\<close>

theorem total_price_exact_witness:
  "create_booking example_backend (ymd2ord 2023 12 1) (example_context 7) (example_store [] []) 5
     (example_payload (Some (ymd2ord 2024 1 1)) (Some (ymd2ord 2024 1 4)) (Some 2))
   = Inr (example_booking 5 7 (ymd2ord 2024 1 1) (ymd2ord 2024 1 4) Pending,
          example_store [example_booking 5 7 (ymd2ord 2024 1 1) (ymd2ord 2024 1 4) Pending] [])
   \<and> Listing_objects_get (example_store [] []) 1 = Some example_listing
   \<and> valid_price (price_per_night example_listing)
   \<and> valid_date (ymd2ord 2024 1 1) \<and> valid_date (ymd2ord 2024 1 4)
   \<and> ymd2ord 2024 1 4 - ymd2ord 2024 1 1 = 3
   \<and> total_price (example_booking 5 7 (ymd2ord 2024 1 1) (ymd2ord 2024 1 4) Pending)
       = \<lparr>coefficient = 30000, exponent = - 2\<rparr>
   \<and> dec_value (total_price (example_booking 5 7 (ymd2ord 2024 1 1) (ymd2ord 2024 1 4) Pending))
       = 300"
proof -
  let ?b = "example_booking 5 7 (ymd2ord 2024 1 1) (ymd2ord 2024 1 4) Pending"
  have ok: "create_booking example_backend (ymd2ord 2023 12 1) (example_context 7) (example_store [] []) 5
     (example_payload (Some (ymd2ord 2024 1 1)) (Some (ymd2ord 2024 1 4)) (Some 2))
     = Inr (?b, example_store [?b] [])"
    by (simp add: example_defs booking_eval date_eval)
  have l: "Listing_objects_get (example_store [] []) (listing ?b) = Some example_listing"
    by (simp add: example_defs Listing_objects_get_def)
  have p: "valid_price (price_per_night example_listing)"
    by (simp add: example_defs valid_price_def)
  have d: "valid_date (check_in_date ?b)" "valid_date (check_out_date ?b)"
    by (simp_all add: example_defs date_eval)
  have n: "ymd2ord 2024 1 4 - ymd2ord 2024 1 1 = 3"
    by (simp add: date_eval)
  have dv: "dec_value (price_per_night example_listing) = 100"
    by (simp add: example_defs dec_value_def)
  from total_price_exact[OF ok l p d] ok l p d n dv show ?thesis
    by (simp add: example_defs date_eval dec_value_def)
qed

text \<open>
  Claim C10. Every booking created through the serializer is pending and its total price
  is the listing's nightly price times the number of nights, and any \<open>status\<close> or
  \<open>total_price\<close> in the client's payload changes nothing: the result is the same
  booking and the same store.
\<close>

theorem created_booking_server_fields:
  assumes ok: "create_booking be today ctx st new_id payload = Inr (b, st')"
  shows "status b = Pending
       \<and> (\<exists>l. Listing_objects_get st (listing b) = Some l \<and>
              total_price b =
                decimal_mul_int (price_per_night l) (check_out_date b - check_in_date b))
       \<and> create_booking be today ctx st new_id (payload\<lparr>d_status := s, d_total_price := p\<rparr>)
           = Inr (b, st')"
proof -
  from create_booking_Inr[OF ok] obtain lid l ci co n g where
    l: "Listing_objects_get st lid = Some l" and
    b: "b = \<lparr>booking_id = new_id, listing = lid, guest = g, check_in_date = ci,
          check_out_date = co, number_of_guests = n,
          total_price = decimal_mul_int (price_per_night l) (co - ci), status = Pending\<rparr>"
    by (elim exE conjE) (rule that)
  have "to_internal_value be False (payload\<lparr>d_status := s, d_total_price := p\<rparr>)
          = to_internal_value be False payload"
    by (simp add: to_internal_value_def booking_field_errors_def split: list.splits)
  then have same: "create_booking be today ctx st new_id (payload\<lparr>d_status := s, d_total_price := p\<rparr>)
      = create_booking be today ctx st new_id payload"
    by (simp add: create_booking_def booking_run_validation_def)
  show ?thesis using l b same ok by simp
qed

theorem created_booking_server_fields_witness:
  "create_booking example_backend 5 (example_context 7) (example_store [] []) 1
     (example_payload (Some 10) (Some 13) (Some 2))
   = Inr (example_booking 1 7 10 13 Pending, example_store [example_booking 1 7 10 13 Pending] [])
   \<and> create_booking example_backend 5 (example_context 7) (example_store [] []) 1
     ((example_payload (Some 10) (Some 13) (Some 2))
        \<lparr>d_status := Some Confirmed, d_total_price := Some \<lparr>coefficient = 1, exponent = - 2\<rparr>\<rparr>)
   = Inr (example_booking 1 7 10 13 Pending, example_store [example_booking 1 7 10 13 Pending] [])
   \<and> status (example_booking 1 7 10 13 Pending) = Pending
   \<and> total_price (example_booking 1 7 10 13 Pending) = \<lparr>coefficient = 30000, exponent = - 2\<rparr>"
proof -
  have ok: "create_booking example_backend 5 (example_context 7) (example_store [] []) 1
     (example_payload (Some 10) (Some 13) (Some 2))
     = Inr (example_booking 1 7 10 13 Pending, example_store [example_booking 1 7 10 13 Pending] [])"
    by (simp add: example_defs booking_eval)
  from created_booking_server_fields[OF ok, where s = "Some Confirmed"
      and p = "Some \<lparr>coefficient = 1, exponent = - 2\<rparr>"] ok
  show ?thesis by (simp add: example_defs)
qed

section \<open>Review validation\<close>

lemma review_to_internal_value_Inr:
  "review_to_internal_value p = Inr d \<longleftrightarrow>
     review_field_errors p = [] \<and>
     d = p\<lparr>rd_listing := None, rd_booking := None, rd_reviewer := None\<rparr>"
  by (auto simp: review_to_internal_value_def split: list.splits)

lemma review_field_errors_Nil:
  "review_field_errors p = [] \<longleftrightarrow>
     rd_listing_id p \<noteq> None \<and> (\<exists>r. rd_rating p = Some r \<and> 1 \<le> r \<and> r \<le> 5) \<and>
     (\<exists>c. rd_comment p = Some c \<and> c \<noteq> [])"
  by (auto simp: review_field_errors_def required_error_def rating_errors_def
      comment_errors_def split: option.splits)

text \<open>
  Claim C7, as stated, fails: with a review of listing 1 by user 7 stored, a second
  review request of user 7 for listing 1 passes validation.
\<close>

theorem duplicate_review_counterexample:
  "review_run_validation (example_context 7) (example_store [] [example_review 1 7 5])
     (example_review_payload None (Some 4))
   = Inr ((example_review_payload None (Some 4))\<lparr>rd_listing := Some example_listing\<rparr>)"
  by (simp add: example_defs review_eval)

text \<open>
  Claim C7, amended. Validation never reads the review table, so it has no duplicate
  check. A request that passes validation while a review of the same listing by the same
  reviewer is stored is refused at the write, by the \<open>unique_together\<close> constraint of
  \<open>Review.Meta\<close> (\<open>IntegrityError\<close>); a reviewer's first review of a listing is written.
\<close>

theorem duplicate_review_rejected_at_write:
  assumes u: "request_user ctx = Some u" and lid: "rd_listing_id payload = Some lid"
    and v: "review_run_validation ctx st payload = Inr vd"
  shows "review_run_validation ctx (st\<lparr>reviews := rs\<rparr>) payload = Inr vd
       \<and> ((lid, u) \<in> set (map (\<lambda>x. (review_listing x, reviewer x)) (reviews st)) \<longrightarrow>
            create_review ctx st new_id payload = Inl IntegrityError)
       \<and> ((lid, u) \<notin> set (map (\<lambda>x. (review_listing x, reviewer x)) (reviews st)) \<and>
          new_id \<notin> set (map review_id (reviews st)) \<and> rd_rating payload = Some r \<longrightarrow>
            (\<exists>rv. create_review ctx st new_id payload = Inr (rv, st\<lparr>reviews := rv # reviews st\<rparr>) \<and>
                  review_listing rv = lid \<and> reviewer rv = u \<and> rating rv = r))"
proof -
  have gl: "Listing_objects_get (st\<lparr>reviews := rs\<rparr>) = Listing_objects_get st"
    by (rule ext) (simp add: Listing_objects_get_def)
  have gb: "Booking_objects_get (st\<lparr>reviews := rs\<rparr>) = Booking_objects_get st"
    by (rule ext) (simp add: Booking_objects_get_def)
  have indep: "review_run_validation ctx (st\<lparr>reviews := rs\<rparr>) p = review_run_validation ctx st p"
    for p
    by (simp only: review_run_validation_def ReviewSerializer_validate_def gl gb)
  obtain d where d: "review_to_internal_value payload = Inr d"
    and vv: "ReviewSerializer_validate ctx st d = Inr vd"
    using v by (auto simp: review_run_validation_def split: sum.splits)
  have dp: "rd_listing_id d = Some lid" "rd_rating d = rd_rating payload"
    using d lid by (auto simp: review_to_internal_value_Inr)
  from ReviewSerializer_validate_Inr[OF vv] dp obtain l where
    l: "Listing_objects_get st lid = Some l" "rd_listing vd = Some l"
    and r: "rd_rating vd = rd_rating payload"
    by auto
  have lid_eq: "listing_id l = lid"
    using l(1) by (auto simp: Listing_objects_get_def find_Some_iff)
  have c: "create_review ctx st new_id payload =
           Review_objects_create st new_id (vd\<lparr>rd_reviewer := Some u\<rparr>)"
    using v u by (simp add: create_review_def ReviewSerializer_create_def)
  have dup: "(lid, u) \<in> set (map (\<lambda>x. (review_listing x, reviewer x)) (reviews st)) \<longrightarrow>
            create_review ctx st new_id payload = Inl IntegrityError"
    unfolding c using l(2) lid_eq
    by (auto simp: Review_objects_create_def Let_def split: option.splits)
  have first: "(lid, u) \<notin> set (map (\<lambda>x. (review_listing x, reviewer x)) (reviews st)) \<and>
          new_id \<notin> set (map review_id (reviews st)) \<and> rd_rating payload = Some r \<longrightarrow>
            (\<exists>rv. create_review ctx st new_id payload = Inr (rv, st\<lparr>reviews := rv # reviews st\<rparr>) \<and>
                  review_listing rv = lid \<and> reviewer rv = u \<and> rating rv = r)"
    unfolding c using l(2) lid_eq r
    by (auto simp: Review_objects_create_def Let_def split: option.splits)
  show ?thesis using indep v dup first by simp
qed

theorem duplicate_review_rejected_at_write_witness:
  "request_user (example_context 7) = Some 7 \<and>
   rd_listing_id (example_review_payload None (Some 4)) = Some 1 \<and>
   create_review (example_context 7) (example_store [] [example_review 1 7 5]) 2
     (example_review_payload None (Some 4)) = Inl IntegrityError \<and>
   create_review (example_context 7) (example_store [] []) 1
     (example_review_payload None (Some 5))
     = Inr (example_review 1 7 5, example_store [] [example_review 1 7 5])"
proof -
  have v: "review_run_validation (example_context 7) (example_store [] [example_review 1 7 5])
     (example_review_payload None (Some 4))
     = Inr ((example_review_payload None (Some 4))\<lparr>rd_listing := Some example_listing\<rparr>)"
    by (simp add: example_defs review_eval)
  have u: "request_user (example_context 7) = Some 7"
    by (simp add: example_defs request_user_def)
  have lid: "rd_listing_id (example_review_payload None (Some 4)) = Some 1"
    by (simp add: example_defs)
  have first: "create_review (example_context 7) (example_store [] []) 1
     (example_review_payload None (Some 5))
     = Inr (example_review 1 7 5, example_store [] [example_review 1 7 5])"
    by (simp add: example_defs review_eval)
  from duplicate_review_rejected_at_write[OF u lid v, of "[]" 2 0] u lid first
  show ?thesis by (simp add: example_defs)
qed

text \<open>
  Claim C8. A review request whose rating is outside 1..5 is refused for its rating: by
  the \<open>rating\<close> field, built from the model's \<open>MinValueValidator(1)\<close> and
  \<open>MaxValueValidator(5)\<close>, which runs before \<open>validate\<close> on every request; the
  check of \<open>validate\<close> itself raises "Rating must be between 1 and 5." on every rating
  outside 1..5 other than 0. For a request whose fields are in order, with an existing
  listing, an existing booking and the request's user as reviewer: validation fails with
  \<open>NotBookingOwner\<close> when the booking's guest is not the reviewer, with
  \<open>BookingNotCompleted\<close> when the guest is the reviewer and the status is not
  completed, and succeeds when the guest is the reviewer and the booking is completed.
\<close>

theorem review_validation_errors:
  fixes ctx :: serializer_context and st :: store and payload :: review_data
  defines "V \<equiv> review_run_validation ctx st payload"
  shows "(rd_rating payload = Some r \<and> (r < 1 \<or> 5 < r) \<longrightarrow>
            (\<exists>e. V = Inl e \<and> invalid_rating e))
       \<and> (rd_rating payload = Some r \<and> r \<noteq> 0 \<and> (r < 1 \<or> 5 < r) \<longrightarrow>
            ReviewSerializer_validate ctx st payload = Inl InvalidRating)
       \<and> (review_field_errors payload = [] \<and>
          rd_listing_id payload = Some lid \<and> Listing_objects_get st lid = Some l \<and>
          rd_booking_id payload = Some bid \<and> Booking_objects_get st bid = Some bk \<and>
          request_user ctx = Some u \<longrightarrow>
            (guest bk \<noteq> u \<longrightarrow> V = Inl NotBookingOwner)
          \<and> (guest bk = u \<and> status bk \<noteq> Completed \<longrightarrow> V = Inl BookingNotCompleted)
          \<and> (guest bk = u \<and> status bk = Completed \<longrightarrow>
               V = Inr (payload\<lparr>rd_listing := Some l, rd_booking := Some bk,
                                 rd_reviewer := None\<rparr>)))"
proof -
  have field: "rd_rating payload = Some r \<and> (r < 1 \<or> 5 < r) \<longrightarrow>
            (\<exists>e. V = Inl e \<and> invalid_rating e)"
  proof
    assume a: "rd_rating payload = Some r \<and> (r < 1 \<or> 5 < r)"
    let ?es = "review_field_errors payload"
    have m: "(''rating'', MinValue) \<in> set ?es \<or> (''rating'', MaxValue) \<in> set ?es"
      using a by (auto simp: review_field_errors_def rating_errors_def)
    then have ne: "?es \<noteq> []" by auto
    then have "V = Inl (FieldErrors ?es)"
      by (cases ?es) (simp_all add: V_def review_run_validation_def review_to_internal_value_def)
    with m show "\<exists>e. V = Inl e \<and> invalid_rating e"
      by (simp add: invalid_rating_def)
  qed
  have own: "rd_rating payload = Some r \<and> r \<noteq> 0 \<and> (r < 1 \<or> 5 < r) \<longrightarrow>
            ReviewSerializer_validate ctx st payload = Inl InvalidRating"
    by (auto simp: ReviewSerializer_validate_def rating_out_of_range_def)
  have good: "V =
     (if guest bk \<noteq> u then Inl NotBookingOwner
      else if status bk \<noteq> Completed then Inl BookingNotCompleted
      else Inr (payload\<lparr>rd_listing := Some l, rd_booking := Some bk, rd_reviewer := None\<rparr>))"
    if h: "review_field_errors payload = []"
      "rd_listing_id payload = Some lid" "Listing_objects_get st lid = Some l"
      "rd_booking_id payload = Some bid" "Booking_objects_get st bid = Some bk"
      "request_user ctx = Some u"
  proof -
    let ?d = "payload\<lparr>rd_listing := None, rd_booking := None, rd_reviewer := None\<rparr>"
    have ti: "review_to_internal_value payload = Inr ?d"
      using h(1) by (simp add: review_to_internal_value_Inr)
    have "\<not> rating_out_of_range (rd_rating ?d)"
      using h(1) by (auto simp: review_field_errors_Nil rating_out_of_range_def)
    from review_validate_booking[OF this, of lid st l bid bk ctx] h(2-6) ti show ?thesis
      by (simp add: V_def review_run_validation_def)
  qed
  show ?thesis using field own good by auto
qed

theorem review_validation_errors_witness:
  "review_run_validation (example_context 7) (example_store [] [])
     (example_review_payload None (Some 6)) = Inl (FieldErrors [(''rating'', MaxValue)]) \<and>
   review_run_validation (example_context 7) (example_store [] [])
     (example_review_payload None (Some 0)) = Inl (FieldErrors [(''rating'', MinValue)]) \<and>
   invalid_rating (FieldErrors [(''rating'', MaxValue)]) \<and>
   invalid_rating (FieldErrors [(''rating'', MinValue)]) \<and>
   ReviewSerializer_validate (example_context 7) (example_store [] [])
     (example_review_payload None (Some 6)) = Inl InvalidRating \<and>
   review_run_validation (example_context 8)
     (example_store [example_booking 3 7 10 15 Completed] [])
     (example_review_payload (Some 3) (Some 5)) = Inl NotBookingOwner \<and>
   review_run_validation (example_context 7)
     (example_store [example_booking 3 7 10 15 Pending] [])
     (example_review_payload (Some 3) (Some 5)) = Inl BookingNotCompleted \<and>
   review_run_validation (example_context 7)
     (example_store [example_booking 3 7 10 15 Completed] [])
     (example_review_payload (Some 3) (Some 5))
     = Inr ((example_review_payload (Some 3) (Some 5))
             \<lparr>rd_listing := Some example_listing,
              rd_booking := Some (example_booking 3 7 10 15 Completed)\<rparr>)"
proof -
  have f: "review_run_validation (example_context 7) (example_store [] [])
       (example_review_payload None (Some 6)) = Inl (FieldErrors [(''rating'', MaxValue)])"
    "review_run_validation (example_context 7) (example_store [] [])
       (example_review_payload None (Some 0)) = Inl (FieldErrors [(''rating'', MinValue)])"
    by (simp_all add: example_defs review_run_validation_def field_eval)
  show ?thesis
    using f
      review_validation_errors [where payload = "example_review_payload None (Some 6)" and r = 6
        and st = "example_store [] []" and lid = 1 and l = example_listing
        and bid = 3 and bk = "example_booking 3 7 10 15 Completed"
        and ctx = "example_context 7" and u = 7]
      review_validation_errors [where payload = "example_review_payload (Some 3) (Some 5)" and r = 5
        and st = "example_store [example_booking 3 7 10 15 Completed] []" and lid = 1 and l = example_listing
        and bid = 3 and bk = "example_booking 3 7 10 15 Completed"
        and ctx = "example_context 8" and u = 8]
      review_validation_errors [where payload = "example_review_payload (Some 3) (Some 5)" and r = 5
        and st = "example_store [example_booking 3 7 10 15 Pending] []" and lid = 1 and l = example_listing
        and bid = 3 and bk = "example_booking 3 7 10 15 Pending"
        and ctx = "example_context 7" and u = 7]
      review_validation_errors [where payload = "example_review_payload (Some 3) (Some 5)" and r = 5
        and st = "example_store [example_booking 3 7 10 15 Completed] []" and lid = 1 and l = example_listing
        and bid = 3 and bk = "example_booking 3 7 10 15 Completed"
        and ctx = "example_context 7" and u = 7]
    by (simp add: example_defs Listing_objects_get_def Booking_objects_get_def request_user_def
        field_eval invalid_rating_def)
qed

text \<open>
  Claim C9. When the context has no request, or a request without a user, and the rating,
  the listing and the booking lookup pass, validation succeeds whatever the booking's
  guest and status are.
\<close>

theorem review_checks_skipped_without_request_user:
  assumes "request_user ctx = None"
    and "\<not> rating_out_of_range (rd_rating data)"
    and "rd_listing_id data = Some lid" and "Listing_objects_get st lid = Some l"
    and "rd_booking_id data = Some bid" and "Booking_objects_get st bid = Some bk"
  shows "ReviewSerializer_validate ctx st data
           = Inr (data\<lparr>rd_listing := Some l, rd_booking := Some bk\<rparr>)
       \<and> (ctx = None \<or> (\<exists>r. ctx = Some r \<and> user r = None))"
proof -
  have "ctx = None \<or> (\<exists>r. ctx = Some r \<and> user r = None)"
    using assms(1) by (cases ctx) (auto simp: request_user_def)
  with review_validate_booking[OF assms(2-6), of ctx] assms(1) show ?thesis
    by simp
qed

theorem review_checks_skipped_without_request_user_witness:
  "request_user None = None \<and>
   \<not> rating_out_of_range (rd_rating (example_review_payload (Some 3) (Some 5))) \<and>
   Booking_objects_get (example_store [example_booking 3 7 10 15 Pending] []) 3
     = Some (example_booking 3 7 10 15 Pending) \<and>
   guest (example_booking 3 7 10 15 Pending) = 7 \<and>
   status (example_booking 3 7 10 15 Pending) = Pending \<and>
   ReviewSerializer_validate None (example_store [example_booking 3 7 10 15 Pending] [])
     (example_review_payload (Some 3) (Some 5))
     = Inr ((example_review_payload (Some 3) (Some 5))
             \<lparr>rd_listing := Some example_listing,
              rd_booking := Some (example_booking 3 7 10 15 Pending)\<rparr>)"
  using review_checks_skipped_without_request_user [of None
      "example_review_payload (Some 3) (Some 5)" 1
      "example_store [example_booking 3 7 10 15 Pending] []" example_listing 3
      "example_booking 3 7 10 15 Pending"]
  by (simp add: example_defs Listing_objects_get_def Booking_objects_get_def request_user_def
      rating_out_of_range_def)

end
